theory Spec2Isabelle
  imports Main
begin

section \<open>Identifiers, dates, result codes\<close>

text \<open>
  Resource identifiers are MongoDB ObjectIds.  The services receive them as strings and
  wrap them with \<^verbatim>\<open>new Types.ObjectId(id)\<close>; the model works on the identifier
  itself, an opaque value compared by equality (\<^verbatim>\<open>ObjectId.equals\<close>).  A
  \<^verbatim>\<open>Date\<close> is the number of milliseconds since the epoch; \<^verbatim>\<open>new Date()\<close> is
  the parameter \<open>now\<close> of every operation that reads the clock.
\<close>

type_synonym objectId = nat
type_synonym date = nat

text \<open>
  A JavaScript string is the list of its UTF-16 code units, and its \<^verbatim>\<open>length\<close> is the
  length of that list.  \<open>js\<close> writes an ASCII literal as such a string.
\<close>

type_synonym jsString = "nat list"

definition js :: "string \<Rightarrow> jsString" where
  "js s = map of_char s"

text \<open>The \<^verbatim>\<open>error.code\<close> strings of the service responses and of the middleware.\<close>

datatype code =
    PROJECT_NOT_FOUND | PROJECT_ACCESS_DENIED | INSUFFICIENT_PERMISSIONS | PROJECT_FETCH_ERROR
  | INVALID_MEMBERS | PROJECT_CREATION_ERROR | PROJECT_UPDATE_ERROR
  | INVALID_USER | ALREADY_MEMBER | CANNOT_REMOVE_OWNER | NOT_A_MEMBER
  | TASK_NOT_FOUND | TASK_ACCESS_DENIED | TASK_FETCH_ERROR | INVALID_ASSIGNED_USER
  | ASSIGNED_USER_NO_ACCESS | TASK_CREATION_ERROR | TASK_UPDATE_ERROR
  | TASKS_NOT_FOUND | TASKS_ACCESS_DENIED
  | USER_EXISTS | REGISTRATION_ERROR | INVALID_CREDENTIALS | USER_INACTIVE
  | MISSING_TOKEN | TOKEN_EXPIRED | INVALID_TOKEN | NOT_AUTHENTICATED | VALIDATION_ERROR

text \<open>
  What Mongoose throws when a write is refused, and when a value of a query cannot be
  cast to the type of its path.
\<close>

datatype mongoose_error = ValidationError | DuplicateKeyError | CastError

section \<open>Documents and the base repository\<close>

text \<open>
  Every schema is declared with \<^verbatim>\<open>timestamps: true\<close>, so every document carries
  \<^verbatim>\<open>_id\<close>, \<^verbatim>\<open>createdAt\<close> and \<^verbatim>\<open>updatedAt\<close>.  A collection is the list of
  its documents in insertion order.
\<close>

record Document =
  ident :: objectId
  createdAt :: date
  updatedAt :: date

definition findById :: "objectId \<Rightarrow> 'a Document_scheme list \<Rightarrow> 'a Document_scheme option" where
  "findById i coll = find (\<lambda>d. ident d = i) coll"

definition findAll :: "('a \<Rightarrow> bool) \<Rightarrow> 'a list \<Rightarrow> 'a list" where
  "findAll flt coll = filter flt coll"

text \<open>
  \<^verbatim>\<open>create\<close>: \<^verbatim>\<open>new this.model(data).save()\<close>.  Saving validates the document
  against its schema, then runs the schema's \<^verbatim>\<open>pre('save')\<close> hook, then inserts the
  document; a unique index refuses a document that clashes with a stored one.  Every
  collection has the unique index on \<^verbatim>\<open>_id\<close>.
\<close>

definition repo_create ::
  "('a Document_scheme \<Rightarrow> bool) \<Rightarrow> ('a Document_scheme \<Rightarrow> 'a Document_scheme)
     \<Rightarrow> ('a Document_scheme \<Rightarrow> 'a Document_scheme \<Rightarrow> bool)
     \<Rightarrow> 'a Document_scheme \<Rightarrow> 'a Document_scheme list
     \<Rightarrow> mongoose_error + 'a Document_scheme list" where
  "repo_create valid presave clashes doc coll =
     (if \<not> valid doc then Inl ValidationError
      else if list_ex (clashes (presave doc)) coll then Inl DuplicateKeyError
      else Inr (coll @ [presave doc]))"

definition sameId :: "'a Document_scheme \<Rightarrow> 'a Document_scheme \<Rightarrow> bool" where
  "sameId d d' = (ident d = ident d')"

text \<open>\<^verbatim>\<open>findOneAndUpdate\<close> changes the first document that matches.\<close>

fun updateFirst :: "('a \<Rightarrow> bool) \<Rightarrow> ('a \<Rightarrow> 'a) \<Rightarrow> 'a list \<Rightarrow> 'a list" where
  "updateFirst flt f [] = []"
| "updateFirst flt f (d # ds) = (if flt d then f d # ds else d # updateFirst flt f ds)"

definition findByIdAndUpdate ::
  "objectId \<Rightarrow> ('a Document_scheme \<Rightarrow> 'a Document_scheme) \<Rightarrow> date
     \<Rightarrow> 'a Document_scheme list \<Rightarrow> 'a Document_scheme list" where
  "findByIdAndUpdate i f now coll =
     updateFirst (\<lambda>d. ident d = i) (\<lambda>d. (f d)\<lparr>updatedAt := now\<rparr>) coll"

definition updateMany ::
  "('a Document_scheme \<Rightarrow> bool) \<Rightarrow> ('a Document_scheme \<Rightarrow> 'a Document_scheme) \<Rightarrow> date
     \<Rightarrow> 'a Document_scheme list \<Rightarrow> 'a Document_scheme list" where
  "updateMany flt f now coll = map (\<lambda>d. if flt d then (f d)\<lparr>updatedAt := now\<rparr> else d) coll"

fun removeFirst :: "('a \<Rightarrow> bool) \<Rightarrow> 'a list \<Rightarrow> 'a list" where
  "removeFirst flt [] = []"
| "removeFirst flt (d # ds) = (if flt d then ds else d # removeFirst flt ds)"

definition repo_delete :: "objectId \<Rightarrow> 'a Document_scheme list \<Rightarrow> 'a Document_scheme list" where
  "repo_delete i coll = removeFirst (\<lambda>d. ident d = i) coll"

section \<open>Schema setters and validators\<close>

text \<open>
  \<^verbatim>\<open>trim: true\<close> strips white space at both ends before a string is stored
  (\<^verbatim>\<open>String.prototype.trim\<close>); \<^verbatim>\<open>required\<close> refuses the empty string;
  \<^verbatim>\<open>minlength\<close> and \<^verbatim>\<open>maxlength\<close> bound the stored length.  White space is what
  JavaScript takes as such in \<^verbatim>\<open>trim\<close> and in the regular-expression classes
  \<^verbatim>\<open>\s\<close> and \<^verbatim>\<open>\S\<close>: the white-space and line-terminator code points.
\<close>

definition is_space :: "nat \<Rightarrow> bool" where
  "is_space c =
     (c \<in> set [0x09, 0x0A, 0x0B, 0x0C, 0x0D, 0x20, 0xA0, 0x1680, 0x2028, 0x2029, 0x202F,
                0x205F, 0x3000, 0xFEFF]
      \<or> (0x2000 \<le> c \<and> c \<le> 0x200A))"

definition trim :: "jsString \<Rightarrow> jsString" where
  "trim s = rev (dropWhile is_space (rev (dropWhile is_space s)))"

definition validString :: "nat \<Rightarrow> nat \<Rightarrow> jsString \<Rightarrow> bool" where
  "validString lo hi s = (s \<noteq> [] \<and> lo \<le> length s \<and> length s \<le> hi)"

section \<open>Users\<close>

datatype UserRole = Admin | User

record IUserDocument = Document +
  name :: jsString
  email :: jsString
  password :: jsString
  role :: UserRole
  avatar :: "jsString option"
  isActive :: bool
  lastLogin :: "date option"

text \<open>
  The password path is declared \<^verbatim>\<open>select: false\<close>: a user document that
  \<^verbatim>\<open>populate\<close> loads has no password.  \<^verbatim>\<open>toSafeObject\<close> gives the same fields.
\<close>

record SafeUser = Document +
  su_name :: jsString
  su_email :: jsString
  su_role :: UserRole
  su_avatar :: "jsString option"
  su_isActive :: bool
  su_lastLogin :: "date option"

definition toSafeObject :: "IUserDocument \<Rightarrow> SafeUser" where
  "toSafeObject u =
     \<lparr>ident = ident u, createdAt = createdAt u, updatedAt = updatedAt u,
      su_name = name u, su_email = email u, su_role = role u, su_avatar = avatar u,
      su_isActive = isActive u, su_lastLogin = lastLogin u\<rparr>"

section \<open>Projects\<close>

datatype ProjectStatus = Active | ProjectCompleted | Paused

record IProjectDocument = Document +
  projectName :: jsString
  projectDescription :: jsString
  owner :: objectId
  members :: "objectId list"
  projectStatus :: ProjectStatus

text \<open>The instance methods \<^verbatim>\<open>isMember\<close> and \<^verbatim>\<open>isOwner\<close> of the project schema.\<close>

definition isMember :: "IProjectDocument \<Rightarrow> objectId \<Rightarrow> bool" where
  "isMember p userId = list_ex (\<lambda>memberId. memberId = userId) (members p)"

definition isOwner :: "IProjectDocument \<Rightarrow> objectId \<Rightarrow> bool" where
  "isOwner p userId = (owner p = userId)"

definition validProject :: "IProjectDocument \<Rightarrow> bool" where
  "validProject p =
     (validString 3 100 (projectName p) \<and> validString 0 500 (projectDescription p))"

text \<open>\<^verbatim>\<open>ProjectRepository\<close>: \<^verbatim>\<open>$addToSet\<close>, \<^verbatim>\<open>$pull\<close> and the access check.\<close>

definition repo_addMember ::
  "objectId \<Rightarrow> objectId \<Rightarrow> date \<Rightarrow> IProjectDocument list \<Rightarrow> IProjectDocument list" where
  "repo_addMember projectId userId now coll =
     findByIdAndUpdate projectId
       (\<lambda>p. if userId \<in> set (members p) then p else p\<lparr>members := members p @ [userId]\<rparr>)
       now coll"

definition repo_removeMember ::
  "objectId \<Rightarrow> objectId \<Rightarrow> date \<Rightarrow> IProjectDocument list \<Rightarrow> IProjectDocument list" where
  "repo_removeMember projectId userId now coll =
     findByIdAndUpdate projectId (\<lambda>p. p\<lparr>members := removeAll userId (members p)\<rparr>) now coll"

definition userHasAccess :: "IProjectDocument list \<Rightarrow> objectId \<Rightarrow> objectId \<Rightarrow> bool" where
  "userHasAccess coll projectId userId =
     (case findById projectId coll of
        None \<Rightarrow> False
      | Some project \<Rightarrow> isOwner project userId \<or> isMember project userId)"

section \<open>Tasks\<close>

datatype TaskStatus = Todo | InProgress | Completed
datatype TaskPriority = Low | Medium | High

record ITaskDocument = Document +
  title :: jsString
  description :: jsString
  projectId :: objectId
  assignedTo :: objectId
  status :: TaskStatus
  priority :: TaskPriority
  dueDate :: date
  completedAt :: "date option"

text \<open>The database: the three collections.\<close>

record state =
  users :: "IUserDocument list"
  projects :: "IProjectDocument list"
  tasks :: "ITaskDocument list"

section \<open>ProjectService\<close>

text \<open>
  A \<^verbatim>\<open>ServiceResponse\<close> is \<open>Inl code\<close> for \<^verbatim>\<open>success: false\<close> and \<open>Inr data\<close>
  for \<^verbatim>\<open>success: true\<close>.  Every operation returns its response with the database
  it leaves behind.  Where an operation loads a populated document only to return it,
  the data of the response is the stored document.  \<^verbatim>\<open>getProjectById\<close> and
  \<^verbatim>\<open>getTaskById\<close> make their checks on the populated document, so there
  \<^verbatim>\<open>populate\<close> is part of the model.
\<close>

record CreateProject =
  cp_name :: jsString
  cp_description :: jsString
  cp_members :: "objectId list option"

record UpdateProject =
  up_name :: "jsString option"
  up_description :: "jsString option"
  up_status :: "ProjectStatus option"

definition createProject ::
  "objectId \<Rightarrow> date \<Rightarrow> CreateProject \<Rightarrow> objectId \<Rightarrow> state
     \<Rightarrow> (code + IProjectDocument option) \<times> state" where
  "createProject newId now projectData ownerId st =
     (if (case cp_members projectData of
            None \<Rightarrow> False
          | Some ms \<Rightarrow> 0 < length ms \<and>
              length (findAll (\<lambda>u. ident u \<in> set ms \<and> isActive u) (users st)) \<noteq> length ms)
      then (Inl INVALID_MEMBERS, st)
      else
        (case repo_create validProject (\<lambda>p. p) sameId
                \<lparr>ident = newId, createdAt = now, updatedAt = now,
                 projectName = trim (cp_name projectData),
                 projectDescription = trim (cp_description projectData),
                 owner = ownerId,
                 members = (case cp_members projectData of None \<Rightarrow> [] | Some ms \<Rightarrow> ms),
                 projectStatus = Active\<rparr>
                (projects st) of
           Inl err \<Rightarrow> (Inl PROJECT_CREATION_ERROR, st)
         | Inr coll \<Rightarrow> (Inr (findById newId coll), st\<lparr>projects := coll\<rparr>)))"

text \<open>
  \<^verbatim>\<open>populate('owner members')\<close> replaces the owner's identifier by the owner's user
  document, or by \<^verbatim>\<open>null\<close> when there is none, and the member identifiers by the
  user documents that exist.
\<close>

record PopulatedProject = Document +
  pp_name :: jsString
  pp_description :: jsString
  pp_owner :: "SafeUser option"
  pp_members :: "SafeUser list"
  pp_status :: ProjectStatus

definition populate_owner_members :: "IUserDocument list \<Rightarrow> IProjectDocument \<Rightarrow> PopulatedProject" where
  "populate_owner_members coll p =
     \<lparr>ident = ident p, createdAt = createdAt p, updatedAt = updatedAt p,
      pp_name = projectName p, pp_description = projectDescription p,
      pp_owner = map_option toSafeObject (findById (owner p) coll),
      pp_members = List.map_filter (\<lambda>m. map_option toSafeObject (findById m coll)) (members p),
      pp_status = projectStatus p\<rparr>"

text \<open>
  On the populated project \<^verbatim>\<open>isOwner\<close> is \<^verbatim>\<open>this.owner.equals(userId)\<close> on a user
  document, which compares the document's \<^verbatim>\<open>_id\<close> and throws a TypeError when the
  owner is \<^verbatim>\<open>null\<close>; \<^verbatim>\<open>isMember\<close> looks among the populated members.  The
  \<^verbatim>\<open>catch\<close> of the service answers \<^verbatim>\<open>PROJECT_FETCH_ERROR\<close>.
\<close>

definition getProjectById ::
  "objectId \<Rightarrow> objectId option \<Rightarrow> state \<Rightarrow> (code + PopulatedProject) \<times> state" where
  "getProjectById pid userId st =
     (case findById pid (projects st) of
        None \<Rightarrow> (Inl PROJECT_NOT_FOUND, st)
      | Some stored \<Rightarrow>
          (let project = populate_owner_members (users st) stored
           in case userId of
                None \<Rightarrow> (Inr project, st)
              | Some uid \<Rightarrow>
                  (case pp_owner project of
                     None \<Rightarrow> (Inl PROJECT_FETCH_ERROR, st)
                   | Some ownerDoc \<Rightarrow>
                       if \<not> ident ownerDoc = uid \<and>
                          \<not> list_ex (\<lambda>memberDoc. ident memberDoc = uid) (pp_members project)
                       then (Inl PROJECT_ACCESS_DENIED, st)
                       else (Inr project, st))))"

text \<open>
  \<^verbatim>\<open>update\<close> runs with \<^verbatim>\<open>runValidators: true\<close>: the setters and validators of the
  fields that the update sets are applied, and a refused value throws before anything
  is written.
\<close>

definition validUpdateProject :: "UpdateProject \<Rightarrow> bool" where
  "validUpdateProject u =
     ((case up_name u of None \<Rightarrow> True | Some n \<Rightarrow> validString 3 100 (trim n)) \<and>
      (case up_description u of None \<Rightarrow> True | Some d \<Rightarrow> validString 0 500 (trim d)))"

definition applyUpdateProject :: "UpdateProject \<Rightarrow> IProjectDocument \<Rightarrow> IProjectDocument" where
  "applyUpdateProject u p =
     p\<lparr>projectName := (case up_name u of None \<Rightarrow> projectName p | Some n \<Rightarrow> trim n),
       projectDescription :=
         (case up_description u of None \<Rightarrow> projectDescription p | Some d \<Rightarrow> trim d),
       projectStatus := (case up_status u of None \<Rightarrow> projectStatus p | Some s \<Rightarrow> s)\<rparr>"

definition updateProject ::
  "date \<Rightarrow> objectId \<Rightarrow> UpdateProject \<Rightarrow> objectId \<Rightarrow> state
     \<Rightarrow> (code + IProjectDocument option) \<times> state" where
  "updateProject now pid updateData userId st =
     (case findById pid (projects st) of
        None \<Rightarrow> (Inl PROJECT_NOT_FOUND, st)
      | Some project \<Rightarrow>
          if \<not> isOwner project userId then (Inl INSUFFICIENT_PERMISSIONS, st)
          else if \<not> validUpdateProject updateData then (Inl PROJECT_UPDATE_ERROR, st)
          else
            (let coll = findByIdAndUpdate pid (applyUpdateProject updateData) now (projects st)
             in (Inr (findById pid coll), st\<lparr>projects := coll\<rparr>)))"

definition deleteProject ::
  "objectId \<Rightarrow> objectId \<Rightarrow> state \<Rightarrow> (code + unit) \<times> state" where
  "deleteProject pid userId st =
     (case findById pid (projects st) of
        None \<Rightarrow> (Inl PROJECT_NOT_FOUND, st)
      | Some project \<Rightarrow>
          if \<not> isOwner project userId then (Inl INSUFFICIENT_PERMISSIONS, st)
          else (Inr (), st\<lparr>projects := repo_delete pid (projects st)\<rparr>))"

definition addMember ::
  "date \<Rightarrow> objectId \<Rightarrow> objectId \<Rightarrow> objectId \<Rightarrow> state
     \<Rightarrow> (code + IProjectDocument option) \<times> state" where
  "addMember now pid memberUserId requestUserId st =
     (case findById pid (projects st) of
        None \<Rightarrow> (Inl PROJECT_NOT_FOUND, st)
      | Some project \<Rightarrow>
          if \<not> isOwner project requestUserId then (Inl INSUFFICIENT_PERMISSIONS, st)
          else if (case findById memberUserId (users st) of
                     None \<Rightarrow> True
                   | Some memberUser \<Rightarrow> \<not> isActive memberUser)
          then (Inl INVALID_USER, st)
          else if isMember project memberUserId \<or> isOwner project memberUserId
          then (Inl ALREADY_MEMBER, st)
          else
            (let coll = repo_addMember pid memberUserId now (projects st)
             in (Inr (findById pid coll), st\<lparr>projects := coll\<rparr>)))"

definition removeMember ::
  "date \<Rightarrow> objectId \<Rightarrow> objectId \<Rightarrow> objectId \<Rightarrow> state
     \<Rightarrow> (code + IProjectDocument option) \<times> state" where
  "removeMember now pid memberUserId requestUserId st =
     (case findById pid (projects st) of
        None \<Rightarrow> (Inl PROJECT_NOT_FOUND, st)
      | Some project \<Rightarrow>
          if \<not> isOwner project requestUserId \<and> requestUserId \<noteq> memberUserId
          then (Inl INSUFFICIENT_PERMISSIONS, st)
          else if isOwner project memberUserId then (Inl CANNOT_REMOVE_OWNER, st)
          else if \<not> isMember project memberUserId then (Inl NOT_A_MEMBER, st)
          else
            (let coll = repo_removeMember pid memberUserId now (projects st)
             in (Inr (findById pid coll), st\<lparr>projects := coll\<rparr>)))"

section \<open>Task schema hooks and TaskRepository\<close>

text \<open>
  A \<^verbatim>\<open>Date\<close> holds an instant of at most 8.64e15 milliseconds; what lies beyond is
  an Invalid Date, which the \<^verbatim>\<open>dueDate\<close> validator (\<^verbatim>\<open>v > new Date()\<close>) refuses.
\<close>

definition validDate :: "date \<Rightarrow> bool" where
  "validDate d = (d \<le> 8640000000000000)"

definition validTask :: "date \<Rightarrow> ITaskDocument \<Rightarrow> bool" where
  "validTask now t =
     (validString 3 200 (title t) \<and> validString 0 1000 (description t) \<and>
      validDate (dueDate t) \<and> now < dueDate t)"

text \<open>
  \<^verbatim>\<open>taskSchema.pre('save')\<close>.  \<open>statusModified\<close> is \<^verbatim>\<open>this.isModified('status')\<close>.
  In the second branch \<^verbatim>\<open>delete this.completedAt\<close> deletes a property of the document
  object; the stored value of the path lives elsewhere in the document, so the field
  is saved as it was.
\<close>

definition task_pre_save :: "bool \<Rightarrow> date \<Rightarrow> ITaskDocument \<Rightarrow> ITaskDocument" where
  "task_pre_save statusModified now t =
     (if statusModified then
        (if status t = Completed \<and> completedAt t = None then t\<lparr>completedAt := Some now\<rparr>
         else if status t \<noteq> Completed then t
         else t)
      else t)"

text \<open>
  The update object of a task: the fields of \<^verbatim>\<open>UpdateTaskSchema\<close> (strict, so it has
  no \<^verbatim>\<open>completedAt\<close>), and what \<^verbatim>\<open>taskSchema.pre('findOneAndUpdate')\<close> may add to
  it: a value for \<^verbatim>\<open>completedAt\<close>, or \<^verbatim>\<open>$unset.completedAt\<close>.
\<close>

record UpdateTask =
  ut_title :: "jsString option"
  ut_description :: "jsString option"
  ut_assignedTo :: "objectId option"
  ut_status :: "TaskStatus option"
  ut_priority :: "TaskPriority option"
  ut_dueDate :: "date option"

record TaskUpdateQuery = UpdateTask +
  set_completedAt :: "date option"
  unset_completedAt :: bool

definition toUpdateQuery :: "UpdateTask \<Rightarrow> TaskUpdateQuery" where
  "toUpdateQuery u =
     \<lparr>ut_title = ut_title u, ut_description = ut_description u,
      ut_assignedTo = ut_assignedTo u, ut_status = ut_status u,
      ut_priority = ut_priority u, ut_dueDate = ut_dueDate u,
      set_completedAt = None, unset_completedAt = False\<rparr>"

definition task_pre_findOneAndUpdate :: "date \<Rightarrow> TaskUpdateQuery \<Rightarrow> TaskUpdateQuery" where
  "task_pre_findOneAndUpdate now u =
     (if ut_status u = Some Completed \<and> set_completedAt u = None
      then u\<lparr>set_completedAt := Some now\<rparr>
      else if ut_status u \<noteq> None \<and> ut_status u \<noteq> Some Completed
      then u\<lparr>set_completedAt := None, unset_completedAt := True\<rparr>
      else u)"

definition applyTaskUpdate :: "TaskUpdateQuery \<Rightarrow> ITaskDocument \<Rightarrow> ITaskDocument" where
  "applyTaskUpdate u t =
     t\<lparr>title := (case ut_title u of None \<Rightarrow> title t | Some x \<Rightarrow> trim x),
       description := (case ut_description u of None \<Rightarrow> description t | Some x \<Rightarrow> trim x),
       assignedTo := (case ut_assignedTo u of None \<Rightarrow> assignedTo t | Some x \<Rightarrow> x),
       status := (case ut_status u of None \<Rightarrow> status t | Some x \<Rightarrow> x),
       priority := (case ut_priority u of None \<Rightarrow> priority t | Some x \<Rightarrow> x),
       dueDate := (case ut_dueDate u of None \<Rightarrow> dueDate t | Some x \<Rightarrow> x),
       completedAt :=
         (if unset_completedAt u then None
          else case set_completedAt u of None \<Rightarrow> completedAt t | Some d \<Rightarrow> Some d)\<rparr>"

definition validUpdateTask :: "date \<Rightarrow> 'a UpdateTask_scheme \<Rightarrow> bool" where
  "validUpdateTask now u =
     ((case ut_title u of None \<Rightarrow> True | Some x \<Rightarrow> validString 3 200 (trim x)) \<and>
      (case ut_description u of None \<Rightarrow> True | Some x \<Rightarrow> validString 0 1000 (trim x)) \<and>
      (case ut_dueDate u of None \<Rightarrow> True | Some d \<Rightarrow> validDate d \<and> now < d))"

text \<open>
  \<^verbatim>\<open>BaseRepository.update\<close> on tasks: \<^verbatim>\<open>findByIdAndUpdate\<close> with
  \<^verbatim>\<open>runValidators\<close>; the query runs the \<^verbatim>\<open>findOneAndUpdate\<close> hook.
\<close>

definition task_update ::
  "date \<Rightarrow> objectId \<Rightarrow> UpdateTask \<Rightarrow> ITaskDocument list \<Rightarrow> mongoose_error + ITaskDocument list" where
  "task_update now taskId updateData coll =
     (let u = task_pre_findOneAndUpdate now (toUpdateQuery updateData)
      in if \<not> validUpdateTask now u then Inl ValidationError
         else Inr (findByIdAndUpdate taskId (applyTaskUpdate u) now coll))"

text \<open>
  \<^verbatim>\<open>TaskRepository.bulkUpdate\<close>: \<^verbatim>\<open>this.model.updateMany({_id: {$in: taskIds}}, updates)\<close>.
  The schema registers hooks for \<^verbatim>\<open>save\<close> and \<^verbatim>\<open>findOneAndUpdate\<close> only, so this
  query runs none, and it runs no validators.  The updates are the three optional
  fields of \<^verbatim>\<open>BulkUpdateTasksSchema\<close>.  It answers \<^verbatim>\<open>modifiedCount\<close>.
\<close>

record BulkFields =
  bu_status :: "TaskStatus option"
  bu_priority :: "TaskPriority option"
  bu_assignedTo :: "objectId option"

record BulkUpdateTasks =
  taskIds :: "objectId list"
  updates :: BulkFields

definition applyBulkFields :: "BulkFields \<Rightarrow> ITaskDocument \<Rightarrow> ITaskDocument" where
  "applyBulkFields u t =
     t\<lparr>status := (case bu_status u of None \<Rightarrow> status t | Some x \<Rightarrow> x),
       priority := (case bu_priority u of None \<Rightarrow> priority t | Some x \<Rightarrow> x),
       assignedTo := (case bu_assignedTo u of None \<Rightarrow> assignedTo t | Some x \<Rightarrow> x)\<rparr>"

definition repo_bulkUpdate ::
  "date \<Rightarrow> objectId list \<Rightarrow> BulkFields \<Rightarrow> ITaskDocument list \<Rightarrow> nat \<times> ITaskDocument list" where
  "repo_bulkUpdate now ids u coll =
     (let coll' = updateMany (\<lambda>t. ident t \<in> set ids) (applyBulkFields u) now coll
      in (length (filter (\<lambda>(old, new). old \<noteq> new) (zip coll coll')), coll'))"

section \<open>TaskService\<close>

record CreateTask =
  ct_title :: jsString
  ct_description :: jsString
  ct_projectId :: objectId
  ct_assignedTo :: objectId
  ct_priority :: TaskPriority
  ct_dueDate :: date

text \<open>\<^verbatim>\<open>!assignedUser || !assignedUser.isActive\<close>.\<close>

definition missingOrInactive :: "IUserDocument list \<Rightarrow> objectId \<Rightarrow> bool" where
  "missingOrInactive coll userId =
     (case findById userId coll of None \<Rightarrow> True | Some u \<Rightarrow> \<not> isActive u)"

definition createTask ::
  "objectId \<Rightarrow> date \<Rightarrow> CreateTask \<Rightarrow> objectId \<Rightarrow> state
     \<Rightarrow> (code + ITaskDocument option) \<times> state" where
  "createTask newId now taskData userId st =
     (if \<not> userHasAccess (projects st) (ct_projectId taskData) userId
      then (Inl PROJECT_ACCESS_DENIED, st)
      else if missingOrInactive (users st) (ct_assignedTo taskData)
      then (Inl INVALID_ASSIGNED_USER, st)
      else if \<not> userHasAccess (projects st) (ct_projectId taskData) (ct_assignedTo taskData)
      then (Inl ASSIGNED_USER_NO_ACCESS, st)
      else
        (case repo_create (validTask now) (task_pre_save False now) sameId
                \<lparr>ident = newId, createdAt = now, updatedAt = now,
                 title = trim (ct_title taskData),
                 description = trim (ct_description taskData),
                 projectId = ct_projectId taskData,
                 assignedTo = ct_assignedTo taskData,
                 status = Todo,
                 priority = ct_priority taskData,
                 dueDate = ct_dueDate taskData,
                 completedAt = None\<rparr>
                (tasks st) of
           Inl err \<Rightarrow> (Inl TASK_CREATION_ERROR, st)
         | Inr coll \<Rightarrow> (Inr (findById newId coll), st\<lparr>tasks := coll\<rparr>)))"

text \<open>
  \<^verbatim>\<open>getTaskById\<close> loads the task with \<^verbatim>\<open>populate('assignedTo projectId')\<close>, so
  \<^verbatim>\<open>task.projectId\<close> is the project document of the task, or \<^verbatim>\<open>null\<close> when the
  project is gone.  \<^verbatim>\<open>task.projectId.toString()\<close> then throws a TypeError on
  \<^verbatim>\<open>null\<close> and otherwise gives the printed form of the document, which is not the
  text of an identifier: \<^verbatim>\<open>findById\<close> in \<^verbatim>\<open>userHasAccess\<close> throws a CastError on
  it.  The \<^verbatim>\<open>catch\<close> of the service answers \<^verbatim>\<open>TASK_FETCH_ERROR\<close>.
\<close>

datatype idText = HexOf objectId | PrintedDocument

definition document_toString :: "'a Document_scheme \<Rightarrow> idText" where
  "document_toString doc = PrintedDocument"

definition castObjectId :: "idText \<Rightarrow> mongoose_error + objectId" where
  "castObjectId s = (case s of HexOf i \<Rightarrow> Inr i | PrintedDocument \<Rightarrow> Inl CastError)"

definition getTaskById ::
  "objectId \<Rightarrow> objectId \<Rightarrow> state \<Rightarrow> (code + ITaskDocument) \<times> state" where
  "getTaskById taskId userId st =
     (case findById taskId (tasks st) of
        None \<Rightarrow> (Inl TASK_NOT_FOUND, st)
      | Some task \<Rightarrow>
          (case findById (projectId task) (projects st) of
             None \<Rightarrow> (Inl TASK_FETCH_ERROR, st)
           | Some populatedProject \<Rightarrow>
               (case castObjectId (document_toString populatedProject) of
                  Inl err \<Rightarrow> (Inl TASK_FETCH_ERROR, st)
                | Inr pid \<Rightarrow>
                    if \<not> userHasAccess (projects st) pid userId
                    then (Inl TASK_ACCESS_DENIED, st)
                    else (Inr task, st))))"

definition updateTask ::
  "date \<Rightarrow> objectId \<Rightarrow> UpdateTask \<Rightarrow> objectId \<Rightarrow> state
     \<Rightarrow> (code + ITaskDocument option) \<times> state" where
  "updateTask now taskId updateData userId st =
     (case findById taskId (tasks st) of
        None \<Rightarrow> (Inl TASK_NOT_FOUND, st)
      | Some task \<Rightarrow>
          if \<not> userHasAccess (projects st) (projectId task) userId
          then (Inl TASK_ACCESS_DENIED, st)
          else
            (case (case ut_assignedTo updateData of
                     None \<Rightarrow> None
                   | Some newAssignee \<Rightarrow>
                       if missingOrInactive (users st) newAssignee
                       then Some INVALID_ASSIGNED_USER
                       else if \<not> userHasAccess (projects st) (projectId task) newAssignee
                       then Some ASSIGNED_USER_NO_ACCESS
                       else None) of
               Some refused \<Rightarrow> (Inl refused, st)
             | None \<Rightarrow>
                 (case task_update now taskId updateData (tasks st) of
                    Inl err \<Rightarrow> (Inl TASK_UPDATE_ERROR, st)
                  | Inr coll \<Rightarrow> (Inr (findById taskId coll), st\<lparr>tasks := coll\<rparr>))))"

definition deleteTask ::
  "objectId \<Rightarrow> objectId \<Rightarrow> state \<Rightarrow> (code + unit) \<times> state" where
  "deleteTask taskId userId st =
     (case findById taskId (tasks st) of
        None \<Rightarrow> (Inl TASK_NOT_FOUND, st)
      | Some task \<Rightarrow>
          if \<not> userHasAccess (projects st) (projectId task) userId
          then (Inl TASK_ACCESS_DENIED, st)
          else (Inr (), st\<lparr>tasks := repo_delete taskId (tasks st)\<rparr>))"

text \<open>
  The loop \<^verbatim>\<open>for (const task of tasks)\<close> of \<^verbatim>\<open>bulkUpdateTasks\<close>, which returns at
  the first task whose project the user cannot access.
\<close>

fun accessToAll :: "IProjectDocument list \<Rightarrow> objectId \<Rightarrow> ITaskDocument list \<Rightarrow> bool" where
  "accessToAll coll userId [] = True"
| "accessToAll coll userId (task # rest) =
     (if \<not> userHasAccess coll (projectId task) userId then False
      else accessToAll coll userId rest)"

definition bulkUpdateTasks ::
  "date \<Rightarrow> BulkUpdateTasks \<Rightarrow> objectId \<Rightarrow> state \<Rightarrow> (code + nat) \<times> state" where
  "bulkUpdateTasks now bulkData userId st =
     (let found = findAll (\<lambda>t. ident t \<in> set (taskIds bulkData)) (tasks st)
      in if length found \<noteq> length (taskIds bulkData) then (Inl TASKS_NOT_FOUND, st)
         else if \<not> accessToAll (projects st) userId found then (Inl TASKS_ACCESS_DENIED, st)
         else
           (case repo_bulkUpdate now (taskIds bulkData) (updates bulkData) (tasks st) of
              (updatedCount, coll) \<Rightarrow> (Inr updatedCount, st\<lparr>tasks := coll\<rparr>)))"

section \<open>User schema, UserRepository and UserService\<close>

text \<open>
  The collaborators the service calls and this repository does not implement: the
  password hash (\<^verbatim>\<open>bcrypt.hash\<close>, \<^verbatim>\<open>bcrypt.compare\<close>), the token signer
  (\<^verbatim>\<open>jwt.sign\<close> with the access and with the refresh secret, \<^verbatim>\<open>jwt.verify\<close>),
  and the Unicode lower-casing of the platform (\<^verbatim>\<open>String.prototype.toLowerCase\<close>).
  They are parameters of the model.
\<close>

record JWTPayload =
  userId :: objectId
  jwt_email :: jsString
  jwt_role :: UserRole

datatype jwt_verdict = Decoded JWTPayload | TokenExpiredError | JsonWebTokenError

record Env =
  bcrypt_hash :: "jsString \<Rightarrow> jsString"
  bcrypt_compare :: "jsString \<Rightarrow> jsString \<Rightarrow> bool"
  jwt_sign_access :: "JWTPayload \<Rightarrow> jsString"
  jwt_sign_refresh :: "JWTPayload \<Rightarrow> jsString"
  jwt_verify :: "jsString \<Rightarrow> jwt_verdict"
  js_toLowerCase :: "jsString \<Rightarrow> jsString"

text \<open>
  The setters of the email path (\<^verbatim>\<open>lowercase: true, trim: true\<close>).  Mongoose runs
  the setters of a path from the last one added to the first, so the value is trimmed
  and then lower-cased; \<^verbatim>\<open>toLowerCase\<close> neither makes nor removes white space, so
  the other order gives the same string.  Mongoose applies the setters of a path to a
  value that is stored and to a value that a query filter compares with the path.
\<close>

definition normEmail :: "Env \<Rightarrow> jsString \<Rightarrow> jsString" where
  "normEmail env e = js_toLowerCase env (trim e)"

text \<open>The \<^verbatim>\<open>match\<close> validator of the email path: \<^verbatim>\<open>/^\S+@\S+\.\S+$/\<close>.\<close>

definition matchesEmail :: "jsString \<Rightarrow> bool" where
  "matchesEmail s =
     (\<not> list_ex is_space s \<and>
      list_ex (\<lambda>i. s ! i = of_char CHR ''@'' \<and> 0 < i \<and>
                 list_ex (\<lambda>j. s ! j = of_char CHR ''.'' \<and> i + 1 < j \<and> j + 1 < length s)
                   [0..<length s])
        [0..<length s])"

text \<open>
  The validator of the avatar path: an empty value passes, any other has to match
  \<^verbatim>\<open>/^https?:\/\/.+/\<close>, where the dot stands for any code unit but a line
  terminator.
\<close>

definition matchesUrl :: "jsString \<Rightarrow> bool" where
  "matchesUrl v =
     list_ex (\<lambda>scheme. take (length scheme) v = scheme \<and> length scheme < length v \<and>
                v ! length scheme \<notin> set [0x0A, 0x0D, 0x2028, 0x2029])
       [js ''http://'', js ''https://'']"

definition validUser :: "IUserDocument \<Rightarrow> bool" where
  "validUser u =
     (validString 2 50 (name u) \<and> email u \<noteq> [] \<and> matchesEmail (email u) \<and>
      password u \<noteq> [] \<and> 8 \<le> length (password u) \<and>
      (case avatar u of None \<Rightarrow> True | Some v \<Rightarrow> v = [] \<or> matchesUrl v))"

text \<open>
  \<^verbatim>\<open>userSchema.pre('save')\<close> hashes the password of a new document.  The user
  collection has a second unique index, on \<^verbatim>\<open>email\<close>.
\<close>

definition user_pre_save :: "Env \<Rightarrow> IUserDocument \<Rightarrow> IUserDocument" where
  "user_pre_save env u = u\<lparr>password := bcrypt_hash env (password u)\<rparr>"

definition userClash :: "IUserDocument \<Rightarrow> IUserDocument \<Rightarrow> bool" where
  "userClash u u' = (ident u = ident u' \<or> email u = email u')"

definition findByEmail :: "Env \<Rightarrow> jsString \<Rightarrow> IUserDocument list \<Rightarrow> IUserDocument option" where
  "findByEmail env e coll = find (\<lambda>u. email u = normEmail env e) coll"

definition updateLastLogin :: "date \<Rightarrow> objectId \<Rightarrow> IUserDocument list \<Rightarrow> IUserDocument list" where
  "updateLastLogin now uid coll = findByIdAndUpdate uid (\<lambda>u. u\<lparr>lastLogin := Some now\<rparr>) now coll"

record AuthResponse =
  user :: SafeUser
  accessToken :: jsString
  refreshToken :: jsString

record UserRegistration =
  reg_name :: jsString
  reg_email :: jsString
  reg_password :: jsString

record UserLogin =
  login_email :: jsString
  login_password :: jsString

definition tokenPayload :: "IUserDocument \<Rightarrow> JWTPayload" where
  "tokenPayload u = \<lparr>userId = ident u, jwt_email = email u, jwt_role = role u\<rparr>"

definition authResponse :: "Env \<Rightarrow> IUserDocument \<Rightarrow> AuthResponse" where
  "authResponse env u =
     \<lparr>user = toSafeObject u,
      accessToken = jwt_sign_access env (tokenPayload u),
      refreshToken = jwt_sign_refresh env (tokenPayload u)\<rparr>"

definition newUserDocument ::
  "Env \<Rightarrow> objectId \<Rightarrow> date \<Rightarrow> UserRegistration \<Rightarrow> IUserDocument" where
  "newUserDocument env newId now userData =
     \<lparr>ident = newId, createdAt = now, updatedAt = now,
      name = trim (reg_name userData),
      email = normEmail env (reg_email userData),
      password = reg_password userData,
      role = User, avatar = None, isActive = True, lastLogin = None\<rparr>"

definition register ::
  "Env \<Rightarrow> objectId \<Rightarrow> date \<Rightarrow> UserRegistration \<Rightarrow> state \<Rightarrow> (code + AuthResponse) \<times> state" where
  "register env newId now userData st =
     (case findByEmail env (reg_email userData) (users st) of
        Some existingUser \<Rightarrow> (Inl USER_EXISTS, st)
      | None \<Rightarrow>
          (case repo_create validUser (user_pre_save env) userClash
                  (newUserDocument env newId now userData) (users st) of
             Inl err \<Rightarrow> (Inl REGISTRATION_ERROR, st)
           | Inr coll \<Rightarrow>
               (Inr (authResponse env
                       (user_pre_save env (newUserDocument env newId now userData))),
                st\<lparr>users := coll\<rparr>)))"

definition login ::
  "Env \<Rightarrow> date \<Rightarrow> UserLogin \<Rightarrow> state \<Rightarrow> (code + AuthResponse) \<times> state" where
  "login env now loginData st =
     (case findByEmail env (login_email loginData) (users st) of
        None \<Rightarrow> (Inl INVALID_CREDENTIALS, st)
      | Some u \<Rightarrow>
          if \<not> isActive u then (Inl USER_INACTIVE, st)
          else if \<not> bcrypt_compare env (login_password loginData) (password u)
          then (Inl INVALID_CREDENTIALS, st)
          else (Inr (authResponse env u),
                st\<lparr>users := updateLastLogin now (ident u) (users st)\<rparr>))"

section \<open>Middleware and routes\<close>

text \<open>
  \<^verbatim>\<open>authenticate\<close>.  \<open>token\<close> is what the middleware reads from the request headers
  (\<open>None\<close> when neither header is there; the empty string is falsy as well).  On
  success it answers the decoded payload, which becomes \<^verbatim>\<open>req.user\<close>.
\<close>

definition authenticate ::
  "Env \<Rightarrow> date \<Rightarrow> jsString option \<Rightarrow> state \<Rightarrow> (code + JWTPayload) \<times> state" where
  "authenticate env now token st =
     (case token of
        None \<Rightarrow> (Inl MISSING_TOKEN, st)
      | Some t \<Rightarrow>
          if t = [] then (Inl MISSING_TOKEN, st)
          else
            (case jwt_verify env t of
               TokenExpiredError \<Rightarrow> (Inl TOKEN_EXPIRED, st)
             | JsonWebTokenError \<Rightarrow> (Inl INVALID_TOKEN, st)
             | Decoded decoded \<Rightarrow>
                 (case findById (userId decoded) (users st) of
                    None \<Rightarrow> (Inl INVALID_USER, st)
                  | Some u \<Rightarrow>
                      if \<not> isActive u then (Inl INVALID_USER, st)
                      else (Inr decoded,
                            st\<lparr>users := updateLastLogin now (userId decoded) (users st)\<rparr>))))"

text \<open>\<^verbatim>\<open>requireProjectMember\<close>: \<open>Inr ()\<close> stands for \<^verbatim>\<open>next()\<close>.\<close>

definition requireProjectMember ::
  "JWTPayload option \<Rightarrow> objectId \<Rightarrow> state \<Rightarrow> code + unit" where
  "requireProjectMember reqUser pid st =
     (case reqUser of
        None \<Rightarrow> Inl NOT_AUTHENTICATED
      | Some who \<Rightarrow>
          if jwt_role who = Admin then Inr ()
          else
            (case findById pid (projects st) of
               None \<Rightarrow> Inl PROJECT_NOT_FOUND
             | Some project \<Rightarrow>
                 if \<not> isOwner project (userId who) \<and> \<not> isMember project (userId who)
                 then Inl PROJECT_ACCESS_DENIED
                 else Inr ()))"

text \<open>
  The project and task routes.  A request carries its body as the \<^verbatim>\<open>validate\<close>
  middleware leaves it in \<^verbatim>\<open>req.body\<close>, that is, parsed by the route's schema.
  Every route runs \<^verbatim>\<open>authenticate\<close> first; the project routes with an \<^verbatim>\<open>:id\<close>
  then run \<^verbatim>\<open>requireProjectMember\<close>; the controller parses \<^verbatim>\<open>req.body\<close> with
  the same schema once more and calls the service with \<^verbatim>\<open>req.user.userId\<close>.  The
  second parse changes nothing in a body of strings, but the task schemas expect
  \<^verbatim>\<open>dueDate\<close> as a string and find the \<^verbatim>\<open>Date\<close> of the first parse: the
  controller throws a ZodError, which the error handler answers with
  \<^verbatim>\<open>VALIDATION_ERROR\<close>, for every task creation and for every task update with a
  due date.  Of the HTTP answer the model keeps whether the request succeeded, and the
  code if it did not.
\<close>

datatype request =
    PostProject CreateProject
  | GetProject objectId
  | PutProject objectId UpdateProject
  | DeleteProject objectId
  | PostProjectMember objectId objectId
  | DeleteProjectMember objectId objectId
  | PostTask CreateTask
  | GetTask objectId
  | PutTask objectId UpdateTask
  | DeleteTask objectId
  | PatchTasksBulk BulkUpdateTasks

definition answer :: "(code + 'a) \<times> state \<Rightarrow> (code + unit) \<times> state" where
  "answer r = (case r of (Inl c, st) \<Rightarrow> (Inl c, st) | (Inr x, st) \<Rightarrow> (Inr (), st))"

definition guarded ::
  "JWTPayload \<Rightarrow> objectId \<Rightarrow> state \<Rightarrow> ((code + unit) \<times> state) \<Rightarrow> (code + unit) \<times> state" where
  "guarded who pid st continue =
     (case requireProjectMember (Some who) pid st of
        Inl c \<Rightarrow> (Inl c, st)
      | Inr ok \<Rightarrow> continue)"

fun controller ::
  "objectId \<Rightarrow> date \<Rightarrow> JWTPayload \<Rightarrow> request \<Rightarrow> state \<Rightarrow> (code + unit) \<times> state" where
  "controller newId now who (PostProject body) st =
     answer (createProject newId now body (userId who) st)"
| "controller newId now who (GetProject pid) st =
     guarded who pid st (answer (getProjectById pid (Some (userId who)) st))"
| "controller newId now who (PutProject pid body) st =
     guarded who pid st (answer (updateProject now pid body (userId who) st))"
| "controller newId now who (DeleteProject pid) st =
     guarded who pid st (answer (deleteProject pid (userId who) st))"
| "controller newId now who (PostProjectMember pid memberUserId) st =
     guarded who pid st (answer (addMember now pid memberUserId (userId who) st))"
| "controller newId now who (DeleteProjectMember pid memberUserId) st =
     guarded who pid st (answer (removeMember now pid memberUserId (userId who) st))"
| "controller newId now who (PostTask body) st = (Inl VALIDATION_ERROR, st)"
| "controller newId now who (GetTask taskId) st =
     answer (getTaskById taskId (userId who) st)"
| "controller newId now who (PutTask taskId body) st =
     (if ut_dueDate body \<noteq> None then (Inl VALIDATION_ERROR, st)
      else answer (updateTask now taskId body (userId who) st))"
| "controller newId now who (DeleteTask taskId) st =
     answer (deleteTask taskId (userId who) st)"
| "controller newId now who (PatchTasksBulk body) st =
     answer (bulkUpdateTasks now body (userId who) st)"

definition route ::
  "Env \<Rightarrow> objectId \<Rightarrow> date \<Rightarrow> jsString option \<Rightarrow> request \<Rightarrow> state \<Rightarrow> (code + unit) \<times> state" where
  "route env newId now token req st =
     (case authenticate env now token st of
        (Inl c, st') \<Rightarrow> (Inl c, st')
      | (Inr who, st') \<Rightarrow> controller newId now who req st')"

section \<open>The invariant of the member list\<close>

text \<open>No project of the collection lists its owner among its members.\<close>

definition ownerNotMember :: "IProjectDocument list \<Rightarrow> bool" where
  "ownerNotMember coll = list_all (\<lambda>p. owner p \<notin> set (members p)) coll"

section \<open>A small database\<close>

text \<open>
  The concrete inputs at which the theorems below are instantiated: Alice owns the
  project, Bob is its member, Carol is an outsider, Dave is an administrator who is
  neither owner nor member.  The lower-casing of the example environment maps the
  letters A to Z, which is what \<^verbatim>\<open>toLowerCase\<close> does on the ASCII strings used
  here.
\<close>

definition alice :: IUserDocument where
  "alice = \<lparr>ident = 1, createdAt = 0, updatedAt = 0, name = js ''Alice'',
            email = js ''alice@x.com'', password = js ''$2a$Alice123!'', role = User,
            avatar = None, isActive = True, lastLogin = None\<rparr>"

definition bob :: IUserDocument where
  "bob = \<lparr>ident = 2, createdAt = 0, updatedAt = 0, name = js ''Bob'',
          email = js ''bob@x.com'', password = js ''$2a$Bob12345!'', role = User,
          avatar = None, isActive = True, lastLogin = None\<rparr>"

definition carol :: IUserDocument where
  "carol = \<lparr>ident = 3, createdAt = 0, updatedAt = 0, name = js ''Carol'',
            email = js ''carol@x.com'', password = js ''$2a$Carol123!'', role = User,
            avatar = None, isActive = True, lastLogin = None\<rparr>"

definition dave :: IUserDocument where
  "dave = \<lparr>ident = 4, createdAt = 0, updatedAt = 0, name = js ''Dave'',
           email = js ''dave@x.com'', password = js ''$2a$Dave1234!'', role = Admin,
           avatar = None, isActive = True, lastLogin = None\<rparr>"

definition demoProject :: IProjectDocument where
  "demoProject = \<lparr>ident = 10, createdAt = 1, updatedAt = 1, projectName = js ''Demo'',
                  projectDescription = js ''A demo project'', owner = 1, members = [2],
                  projectStatus = Active\<rparr>"

definition demoTask :: ITaskDocument where
  "demoTask = \<lparr>ident = 20, createdAt = 2, updatedAt = 2, title = js ''Write report'',
               description = js ''First task'', projectId = 10, assignedTo = 2, status = Todo,
               priority = Medium, dueDate = 1000, completedAt = None\<rparr>"

definition doneTask :: ITaskDocument where
  "doneTask = \<lparr>ident = 21, createdAt = 3, updatedAt = 40, title = js ''Set up repository'',
               description = js ''Finished task'', projectId = 10, assignedTo = 1,
               status = Completed, priority = High, dueDate = 1000, completedAt = Some 40\<rparr>"

definition demo :: state where
  "demo = \<lparr>users = [alice, bob, carol, dave], projects = [demoProject], tasks = [demoTask]\<rparr>"

definition demoEnv :: Env where
  "demoEnv =
     \<lparr>bcrypt_hash = (\<lambda>pw. js ''$2a$'' @ pw),
      bcrypt_compare = (\<lambda>pw h. h = js ''$2a$'' @ pw),
      jwt_sign_access = (\<lambda>p. js ''access.'' @ jwt_email p),
      jwt_sign_refresh = (\<lambda>p. js ''refresh.'' @ jwt_email p),
      jwt_verify = (\<lambda>t. if t = js ''access.bob@x.com''
                         then Decoded \<lparr>userId = 2, jwt_email = js ''bob@x.com'', jwt_role = User\<rparr>
                         else JsonWebTokenError),
      js_toLowerCase = map (\<lambda>c. if 0x41 \<le> c \<and> c \<le> 0x5A then c + 0x20 else c)\<rparr>"

section \<open>Facts about the repository operations\<close>

lemmas demo_defs =
  demo_def demoProject_def demoTask_def alice_def bob_def carol_def dave_def

lemma isMember_iff: "isMember p u \<longleftrightarrow> u \<in> set (members p)"
  by (auto simp: isMember_def list_ex_iff)

lemma findById_SomeD: "findById i coll = Some d \<Longrightarrow> ident d = i \<and> d \<in> set coll"
  unfolding findById_def by (induction coll) (auto split: if_splits)

lemma findById_None_iff: "findById i coll = None \<longleftrightarrow> i \<notin> ident ` set coll"
  unfolding findById_def by (induction coll) auto

lemma updateFirst_None: "find flt coll = None \<Longrightarrow> updateFirst flt f coll = coll"
  by (induction coll) (auto split: if_splits)

lemma set_updateFirst:
  "find flt coll = Some d \<Longrightarrow> set (updateFirst flt f coll) \<subseteq> insert (f d) (set coll)"
  by (induction coll) (auto split: if_splits)

lemma findById_updateFirst:
  assumes "\<And>d. ident (f d) = ident d"
  shows "findById i (updateFirst (\<lambda>d. ident d = j) f coll) =
         (if i = j then map_option f (findById j coll) else findById i coll)"
  using assms unfolding findById_def by (induction coll) auto

lemma findById_findByIdAndUpdate:
  assumes "\<And>d. ident (f d) = ident d"
  shows "findById i (findByIdAndUpdate i f now coll) =
         map_option (\<lambda>d. (f d)\<lparr>updatedAt := now\<rparr>) (findById i coll)"
  unfolding findByIdAndUpdate_def using assms
  by (subst findById_updateFirst) auto

lemma findById_other_findByIdAndUpdate:
  assumes "\<And>d. ident (f d) = ident d" "i \<noteq> j"
  shows "findById i (findByIdAndUpdate j f now coll) = findById i coll"
  unfolding findByIdAndUpdate_def using assms
  by (subst findById_updateFirst) auto

lemma userHasAccess_iff:
  "findById pid coll = Some p \<Longrightarrow>
   userHasAccess coll pid u \<longleftrightarrow> u = owner p \<or> u \<in> set (members p)"
  by (auto simp: userHasAccess_def isOwner_def isMember_iff)

lemma demo_project: "findById 10 (projects demo) = Some demoProject"
  by (simp add: findById_def demo_defs)

lemma demo_task: "findById 20 (tasks demo) = Some demoTask"
  by (simp add: findById_def demo_defs)

section \<open>The project-access decision\<close>

text \<open>
  The operations that load the task as it is stored decide by \<^verbatim>\<open>userHasAccess\<close>:
  task creation answers \<^verbatim>\<open>PROJECT_ACCESS_DENIED\<close>, and the update and the deletion
  of a task answer \<^verbatim>\<open>TASK_ACCESS_DENIED\<close>, exactly when the user is neither the
  owner nor a member of the project.
\<close>

lemma createTask_access_denied_iff:
  "findById pid (projects st) = Some p \<Longrightarrow>
   fst (createTask newId now (taskData\<lparr>ct_projectId := pid\<rparr>) u st) = Inl PROJECT_ACCESS_DENIED
     \<longleftrightarrow> \<not> (u = owner p \<or> u \<in> set (members p))"
  by (auto simp: createTask_def userHasAccess_iff split: sum.splits)

lemma updateTask_access_denied_iff:
  "findById tid (tasks st) = Some t \<Longrightarrow> findById (projectId t) (projects st) = Some p \<Longrightarrow>
   fst (updateTask now tid upd u st) = Inl TASK_ACCESS_DENIED
     \<longleftrightarrow> \<not> (u = owner p \<or> u \<in> set (members p))"
  by (auto simp: updateTask_def userHasAccess_iff split: sum.splits option.splits)

lemma deleteTask_access_decision:
  "findById tid (tasks st) = Some t \<Longrightarrow> findById (projectId t) (projects st) = Some p \<Longrightarrow>
   deleteTask tid u st =
     (if u = owner p \<or> u \<in> set (members p)
      then (Inr (), st\<lparr>tasks := repo_delete tid (tasks st)\<rparr>)
      else (Inl TASK_ACCESS_DENIED, st))"
  by (auto simp: deleteTask_def userHasAccess_iff)

text \<open>
  The project read decides on the populated project.  A member whose user document
  is gone is not among the populated members; when the user document of the owner is
  gone, the read fails for everyone.
\<close>

lemma populated_member_iff:
  "list_ex (\<lambda>memberDoc. ident memberDoc = u)
     (List.map_filter (\<lambda>m. map_option toSafeObject (findById m coll)) ms)
   \<longleftrightarrow> u \<in> set ms \<and> findById u coll \<noteq> None"
proof (induction ms)
  case Nil
  show ?case by (simp add: List.map_filter_simps)
next
  case (Cons m ms)
  show ?case
  proof (cases "findById m coll")
    case None
    with Cons show ?thesis by (auto simp: List.map_filter_simps)
  next
    case (Some d)
    then have "ident d = m" by (rule findById_SomeD [THEN conjunct1])
    with Cons Some show ?thesis by (auto simp: List.map_filter_simps toSafeObject_def)
  qed
qed

lemma getProjectById_access_decision:
  assumes "findById pid (projects st) = Some p" and "findById (owner p) (users st) = Some ownerDoc"
  shows "getProjectById pid (Some u) st =
     (if u = owner p \<or> u \<in> set (members p) \<and> findById u (users st) \<noteq> None
      then (Inr (populate_owner_members (users st) p), st)
      else (Inl PROJECT_ACCESS_DENIED, st))"
proof -
  have "ident ownerDoc = owner p"
    using assms(2) by (rule findById_SomeD [THEN conjunct1])
  then show ?thesis
    using assms populated_member_iff [of u "users st" "members p"]
    by (auto simp: getProjectById_def Let_def populate_owner_members_def toSafeObject_def)
qed

lemma getProjectById_owner_missing:
  "findById pid (projects st) = Some p \<Longrightarrow> findById (owner p) (users st) = None \<Longrightarrow>
   getProjectById pid (Some u) st = (Inl PROJECT_FETCH_ERROR, st)"
  by (simp add: getProjectById_def Let_def populate_owner_members_def)

text \<open>
  The task read never reaches its access check: for a stored task it answers
  \<^verbatim>\<open>TASK_FETCH_ERROR\<close>, whoever asks.
\<close>

lemma getTaskById_found:
  "findById tid (tasks st) = Some t \<Longrightarrow> getTaskById tid u st = (Inl TASK_FETCH_ERROR, st)"
  by (simp add: getTaskById_def castObjectId_def document_toString_def split: option.splits)

text \<open>
  Claim C1.  The claim is that the access decision of the project read and of the
  task operations allows exactly the owner and the members of the project, and that a
  task read by anyone else fails with \<^verbatim>\<open>TASK_ACCESS_DENIED\<close>.  \<^verbatim>\<open>userHasAccess\<close>
  decides so: for task 20 of project 10 it allows Alice, the owner, and Bob, a member,
  and refuses Carol.  But \<^verbatim>\<open>getTaskById\<close> answers \<^verbatim>\<open>TASK_FETCH_ERROR\<close> to all three:
  Alice and Bob are not given the task, and Carol is not told
  \<^verbatim>\<open>TASK_ACCESS_DENIED\<close>.
\<close>

theorem getTaskById_answers_fetch_error:
  "findById 20 (tasks demo) = Some demoTask \<and> projectId demoTask = 10 \<and>
   findById 10 (projects demo) = Some demoProject \<and>
   owner demoProject = 1 \<and> members demoProject = [2] \<and>
   userHasAccess (projects demo) 10 1 \<and> userHasAccess (projects demo) 10 2 \<and>
   \<not> userHasAccess (projects demo) 10 3 \<and>
   getTaskById 20 1 demo = (Inl TASK_FETCH_ERROR, demo) \<and>
   getTaskById 20 2 demo = (Inl TASK_FETCH_ERROR, demo) \<and>
   getTaskById 20 3 demo = (Inl TASK_FETCH_ERROR, demo) \<and>
   fst (getTaskById 20 3 demo) \<noteq> Inl TASK_ACCESS_DENIED \<and>
   fst (getTaskById 20 2 demo) \<noteq> Inr demoTask"
  by (simp add: getTaskById_def castObjectId_def document_toString_def userHasAccess_def
      findById_def isOwner_def isMember_def demo_defs)

section \<open>Task completion time\<close>

text \<open>
  The single-task update goes through \<^verbatim>\<open>findByIdAndUpdate\<close>, whose hook derives
  \<^verbatim>\<open>completedAt\<close> from the new status: after an update that sets the status,
  \<^verbatim>\<open>completedAt\<close> is set exactly when the task is completed.
\<close>

lemma updateTask_keeps_completedAt_invariant:
  assumes "updateTask now tid upd a st = (Inr (Some t'), st')" and "ut_status upd = Some s"
  shows "completedAt t' \<noteq> None \<longleftrightarrow> status t' = Completed"
proof -
  let ?q = "task_pre_findOneAndUpdate now (toUpdateQuery upd)"
  from assms(1) obtain coll where
    u: "task_update now tid upd (tasks st) = Inr coll" and f: "findById tid coll = Some t'"
    by (auto simp: updateTask_def split: option.splits if_splits sum.splits)
  from u have coll: "coll = findByIdAndUpdate tid (applyTaskUpdate ?q) now (tasks st)"
    by (auto simp: task_update_def Let_def split: if_splits)
  have "ident (applyTaskUpdate q d) = ident d" for q d
    by (simp add: applyTaskUpdate_def)
  from f [unfolded coll]
    findById_findByIdAndUpdate [of "applyTaskUpdate ?q" tid now "tasks st", OF this]
  obtain t where "t' = (applyTaskUpdate ?q t)\<lparr>updatedAt := now\<rparr>"
    by auto
  then show ?thesis
    using assms(2)
    by (cases s) (auto simp: applyTaskUpdate_def task_pre_findOneAndUpdate_def toUpdateQuery_def)
qed

text \<open>
  A new task is stored with status \<^verbatim>\<open>todo\<close> and no \<^verbatim>\<open>completedAt\<close>, whichever
  way \<^verbatim>\<open>isModified('status')\<close> answers in the save hook.
\<close>

lemma task_pre_save_new:
  "status t \<noteq> Completed \<Longrightarrow> completedAt t = None \<Longrightarrow> task_pre_save b now t = t"
  by (simp add: task_pre_save_def)

text \<open>
  The save hook stamps a task that is saved as completed without a \<^verbatim>\<open>completedAt\<close>;
  a task that is saved with another status keeps the \<^verbatim>\<open>completedAt\<close> it has.
\<close>

lemma task_pre_save_stamps:
  "status t = Completed \<Longrightarrow> completedAt t = None \<Longrightarrow>
   task_pre_save True now t = t\<lparr>completedAt := Some now\<rparr>"
  by (simp add: task_pre_save_def)

lemma task_pre_save_does_not_clear:
  "status t \<noteq> Completed \<Longrightarrow> task_pre_save b now t = t"
  by (simp add: task_pre_save_def)

text \<open>
  Claim C2.  The claim is that after every status-changing update, bulk update
  included, \<^verbatim>\<open>completedAt\<close> is set if and only if the status is
  \<^verbatim>\<open>completed\<close>.  The bulk update does not keep it: Bob marks the open task 20 as
  completed through \<^verbatim>\<open>bulkUpdateTasks\<close> at time 50, and the task is stored as
  completed with no \<^verbatim>\<open>completedAt\<close>; he reopens the completed task 21 the same
  way, and it is stored as \<^verbatim>\<open>todo\<close> with its old \<^verbatim>\<open>completedAt\<close>.
\<close>

theorem bulkUpdateTasks_breaks_completedAt:
  "bulkUpdateTasks 50
     \<lparr>taskIds = [20],
      updates = \<lparr>bu_status = Some Completed, bu_priority = None, bu_assignedTo = None\<rparr>\<rparr>
     2 demo =
     (Inr 1, demo\<lparr>tasks := [demoTask\<lparr>status := Completed, updatedAt := 50\<rparr>]\<rparr>) \<and>
   status (demoTask\<lparr>status := Completed, updatedAt := 50\<rparr>) = Completed \<and>
   completedAt (demoTask\<lparr>status := Completed, updatedAt := 50\<rparr>) = None \<and>
   bulkUpdateTasks 50
     \<lparr>taskIds = [21],
      updates = \<lparr>bu_status = Some Todo, bu_priority = None, bu_assignedTo = None\<rparr>\<rparr>
     2 (demo\<lparr>tasks := [doneTask]\<rparr>) =
     (Inr 1, demo\<lparr>tasks := [doneTask\<lparr>status := Todo, updatedAt := 50\<rparr>]\<rparr>) \<and>
   status (doneTask\<lparr>status := Todo, updatedAt := 50\<rparr>) = Todo \<and>
   completedAt (doneTask\<lparr>status := Todo, updatedAt := 50\<rparr>) = Some 40"
  by (simp add: bulkUpdateTasks_def findAll_def repo_bulkUpdate_def updateMany_def
      applyBulkFields_def userHasAccess_def findById_def isOwner_def isMember_def
      doneTask_def demo_defs)

section \<open>The owner is not a member\<close>

text \<open>
  Add-member and remove-member keep the invariant, and so does the creation of a
  project whose proposed members do not contain the creator.
\<close>

lemma ownerNotMember_findByIdAndUpdate:
  assumes "ownerNotMember coll"
    and "\<And>p. findById pid coll = Some p \<Longrightarrow> owner (f p) \<notin> set (members (f p))"
  shows "ownerNotMember (findByIdAndUpdate pid f now coll)"
proof (cases "findById pid coll")
  case None
  then show ?thesis
    using assms(1) by (simp add: findByIdAndUpdate_def findById_def updateFirst_None)
next
  case (Some p)
  then have "set (findByIdAndUpdate pid f now coll)
      \<subseteq> insert ((f p)\<lparr>updatedAt := now\<rparr>) (set coll)"
    unfolding findByIdAndUpdate_def findById_def by (rule set_updateFirst)
  then show ?thesis
    using assms Some by (auto simp: ownerNotMember_def list_all_iff)
qed

lemma addMember_keeps_ownerNotMember:
  assumes inv: "ownerNotMember (projects st)"
  shows "ownerNotMember (projects (snd (addMember now pid m a st)))"
proof (cases "fst (addMember now pid m a st)")
  case (Inl c)
  then have "snd (addMember now pid m a st) = st"
    by (auto simp: addMember_def Let_def split: option.splits if_splits)
  then show ?thesis using inv by simp
next
  case (Inr r)
  then obtain p where p: "findById pid (projects st) = Some p"
    and new: "\<not> isMember p m" "\<not> isOwner p m"
    and st': "projects (snd (addMember now pid m a st)) = repo_addMember pid m now (projects st)"
    by (auto simp: addMember_def Let_def split: option.splits if_splits)
  show ?thesis
    unfolding st' repo_addMember_def
  proof (rule ownerNotMember_findByIdAndUpdate [OF inv])
    fix q assume "findById pid (projects st) = Some q"
    then have "q = p" using p by simp
    moreover have "owner p \<notin> set (members p)"
      using inv findById_SomeD [OF p] by (auto simp: ownerNotMember_def list_all_iff)
    ultimately show
      "owner (if m \<in> set (members q) then q else q\<lparr>members := members q @ [m]\<rparr>)
        \<notin> set (members (if m \<in> set (members q) then q else q\<lparr>members := members q @ [m]\<rparr>))"
      using new by (auto simp: isOwner_def)
  qed
qed

lemma removeMember_keeps_ownerNotMember:
  assumes inv: "ownerNotMember (projects st)"
  shows "ownerNotMember (projects (snd (removeMember now pid m a st)))"
proof (cases "fst (removeMember now pid m a st)")
  case (Inl c)
  then have "snd (removeMember now pid m a st) = st"
    by (auto simp: removeMember_def Let_def split: option.splits if_splits)
  then show ?thesis using inv by simp
next
  case (Inr r)
  then obtain p where p: "findById pid (projects st) = Some p"
    and st': "projects (snd (removeMember now pid m a st)) =
                repo_removeMember pid m now (projects st)"
    by (auto simp: removeMember_def Let_def split: option.splits if_splits)
  show ?thesis
    unfolding st' repo_removeMember_def
  proof (rule ownerNotMember_findByIdAndUpdate [OF inv])
    fix q assume "findById pid (projects st) = Some q"
    then have "owner q \<notin> set (members q)"
      using inv findById_SomeD [of pid "projects st" q]
      by (auto simp: ownerNotMember_def list_all_iff)
    then show "owner (q\<lparr>members := removeAll m (members q)\<rparr>)
        \<notin> set (members (q\<lparr>members := removeAll m (members q)\<rparr>))"
      by simp
  qed
qed

lemma createProject_keeps_ownerNotMember:
  "ownerNotMember (projects st) \<Longrightarrow>
   (case cp_members projectData of None \<Rightarrow> True | Some ms \<Rightarrow> ownerId \<notin> set ms) \<Longrightarrow>
   ownerNotMember (projects (snd (createProject newId now projectData ownerId st)))"
  by (auto simp: createProject_def repo_create_def ownerNotMember_def split: option.splits)

text \<open>
  Claim C3.  The claim is that the owner is not among the members after project
  creation for any list of proposed members, also one that contains the creator.
  \<^verbatim>\<open>createProject\<close> checks that the proposed members are active users and stores
  the list as it is: Alice creates a project and proposes herself, and the project is
  stored with Alice as owner and as its only member.
\<close>

theorem createProject_owner_among_members:
  "createProject 11 5
     \<lparr>cp_name = js ''Second'', cp_description = js ''Another project'', cp_members = Some [1]\<rparr>
     1 demo =
     (Inr (Some \<lparr>ident = 11, createdAt = 5, updatedAt = 5, projectName = js ''Second'',
                  projectDescription = js ''Another project'', owner = 1, members = [1],
                  projectStatus = Active\<rparr>),
      demo\<lparr>projects := [demoProject,
               \<lparr>ident = 11, createdAt = 5, updatedAt = 5, projectName = js ''Second'',
                projectDescription = js ''Another project'', owner = 1, members = [1],
                projectStatus = Active\<rparr>]\<rparr>) \<and>
   ownerNotMember (projects demo) \<and>
   \<not> ownerNotMember (projects (snd (createProject 11 5
        \<lparr>cp_name = js ''Second'', cp_description = js ''Another project'', cp_members = Some [1]\<rparr>
        1 demo)))"
  by (simp add: createProject_def findAll_def repo_create_def validProject_def validString_def
      trim_def is_space_def js_def sameId_def findById_def ownerNotMember_def demo_defs)

section \<open>Removing the owner\<close>

text \<open>
  Claim C4, as amended.  A remove-member request whose target is the owner of the
  project always fails and leaves the database unchanged.  The permission check comes
  first: the code is \<^verbatim>\<open>CANNOT_REMOVE_OWNER\<close> when the caller is the owner, and
  \<^verbatim>\<open>INSUFFICIENT_PERMISSIONS\<close> for every other caller.
\<close>

theorem removeMember_owner_target:
  "findById pid (projects st) = Some p \<Longrightarrow>
   removeMember now pid (owner p) c st =
     (Inl (if c = owner p then CANNOT_REMOVE_OWNER else INSUFFICIENT_PERMISSIONS), st)"
  by (simp add: removeMember_def isOwner_def)

theorem removeMember_owner_target_witness:
  "findById 10 (projects demo) = Some demoProject \<and>
   removeMember 5 10 1 1 demo = (Inl CANNOT_REMOVE_OWNER, demo) \<and>
   removeMember 5 10 1 4 demo = (Inl INSUFFICIENT_PERMISSIONS, demo)"
proof -
  have o: "owner demoProject = 1"
    by (simp add: demoProject_def)
  show ?thesis
    using removeMember_owner_target [OF demo_project, where now = 5 and c = 1]
      removeMember_owner_target [OF demo_project, where now = 5 and c = 4] demo_project o
    by simp
qed

text \<open>
  The claim as stated, with \<^verbatim>\<open>CANNOT_REMOVE_OWNER\<close> for every caller, fails when
  Bob, a member, asks to remove Alice, the owner.
\<close>

theorem removeMember_owner_by_member:
  "findById 10 (projects demo) = Some demoProject \<and> owner demoProject = 1 \<and>
   removeMember 5 10 1 2 demo = (Inl INSUFFICIENT_PERMISSIONS, demo) \<and>
   fst (removeMember 5 10 1 2 demo) \<noteq> Inl CANNOT_REMOVE_OWNER"
  by (simp add: removeMember_def isOwner_def findById_def demo_defs)

section \<open>Owner-only project operations\<close>

text \<open>
  Claim C6.  For a stored project \<open>p\<close> and an actor \<open>a\<close> who is not its owner,
  \<^verbatim>\<open>updateProject\<close>, \<^verbatim>\<open>deleteProject\<close> and \<^verbatim>\<open>addMember\<close> answer
  \<^verbatim>\<open>INSUFFICIENT_PERMISSIONS\<close> and change nothing, and so does \<^verbatim>\<open>removeMember\<close>
  unless the actor is the member to be removed; so these operations succeed only for
  the owner (or, for remove-member, the member itself).  The services never look at
  the role of the actor.  An administrator passes the guard
  \<^verbatim>\<open>requireProjectMember\<close> of the routes, and every actor who passes it and is not
  the owner receives \<^verbatim>\<open>INSUFFICIENT_PERMISSIONS\<close> from the service behind it.
\<close>

theorem owner_only_project_mutations:
  "findById pid (projects st) = Some p \<Longrightarrow> a \<noteq> owner p \<Longrightarrow>
     updateProject now pid upd a st = (Inl INSUFFICIENT_PERMISSIONS, st) \<and>
     deleteProject pid a st = (Inl INSUFFICIENT_PERMISSIONS, st) \<and>
     addMember now pid m a st = (Inl INSUFFICIENT_PERMISSIONS, st) \<and>
     (a \<noteq> m \<longrightarrow> removeMember now pid m a st = (Inl INSUFFICIENT_PERMISSIONS, st)) \<and>
     (userId who = a \<and> jwt_role who = Admin \<longrightarrow>
        requireProjectMember (Some who) pid st = Inr ()) \<and>
     (userId who = a \<and> requireProjectMember (Some who) pid st = Inr () \<longrightarrow>
        controller newId now who (PutProject pid upd) st = (Inl INSUFFICIENT_PERMISSIONS, st) \<and>
        controller newId now who (DeleteProject pid) st = (Inl INSUFFICIENT_PERMISSIONS, st) \<and>
        controller newId now who (PostProjectMember pid m) st =
          (Inl INSUFFICIENT_PERMISSIONS, st) \<and>
        (a \<noteq> m \<longrightarrow>
           controller newId now who (DeleteProjectMember pid m) st =
             (Inl INSUFFICIENT_PERMISSIONS, st)))"
  by (simp add: updateProject_def deleteProject_def addMember_def removeMember_def isOwner_def
      requireProjectMember_def guarded_def answer_def)

theorem owner_only_project_mutations_witness:
  "findById 10 (projects demo) = Some demoProject \<and> 4 \<noteq> owner demoProject \<and>
   role dave = Admin \<and> ident dave = 4 \<and>
   updateProject 5 10 \<lparr>up_name = Some (js ''Mine''), up_description = None, up_status = None\<rparr> 4 demo =
     (Inl INSUFFICIENT_PERMISSIONS, demo) \<and>
   deleteProject 10 4 demo = (Inl INSUFFICIENT_PERMISSIONS, demo) \<and>
   addMember 5 10 3 4 demo = (Inl INSUFFICIENT_PERMISSIONS, demo) \<and>
   removeMember 5 10 2 4 demo = (Inl INSUFFICIENT_PERMISSIONS, demo) \<and>
   controller 99 5 \<lparr>userId = 4, jwt_email = js ''dave@x.com'', jwt_role = Admin\<rparr>
     (DeleteProject 10) demo = (Inl INSUFFICIENT_PERMISSIONS, demo)"
proof -
  have o: "4 \<noteq> owner demoProject"
    by (simp add: demoProject_def)
  have d: "role dave = Admin \<and> ident dave = 4"
    by (simp add: dave_def)
  show ?thesis
    using owner_only_project_mutations [OF demo_project o, where now = 5 and newId = 99
        and upd = "\<lparr>up_name = Some (js ''Mine''), up_description = None, up_status = None\<rparr>"
        and m = 3 and who = "\<lparr>userId = 4, jwt_email = js ''dave@x.com'', jwt_role = Admin\<rparr>"]
      owner_only_project_mutations [OF demo_project o, where now = 5 and m = 2
        and who = "\<lparr>userId = 4, jwt_email = js ''dave@x.com'', jwt_role = Admin\<rparr>"]
      demo_project o d
    by simp
qed

text \<open>
  A user who is neither administrator, owner nor member does not reach the service
  through the routes: the guard answers \<^verbatim>\<open>PROJECT_ACCESS_DENIED\<close>.
\<close>

lemma requireProjectMember_outsider:
  "findById pid (projects st) = Some p \<Longrightarrow> jwt_role who \<noteq> Admin \<Longrightarrow>
   userId who \<noteq> owner p \<Longrightarrow> userId who \<notin> set (members p) \<Longrightarrow>
   requireProjectMember (Some who) pid st = Inl PROJECT_ACCESS_DENIED"
  by (simp add: requireProjectMember_def isOwner_def isMember_iff)

text \<open>The owner is let through.\<close>

lemma owner_may_delete:
  "findById pid (projects st) = Some p \<Longrightarrow>
   deleteProject pid (owner p) st = (Inr (), st\<lparr>projects := repo_delete pid (projects st)\<rparr>)"
  by (simp add: deleteProject_def isOwner_def)

lemma owner_may_add_member:
  "findById pid (projects st) = Some p \<Longrightarrow> \<not> missingOrInactive (users st) m \<Longrightarrow>
   m \<noteq> owner p \<Longrightarrow> m \<notin> set (members p) \<Longrightarrow>
   addMember now pid m (owner p) st =
     (Inr (Some (p\<lparr>members := members p @ [m], updatedAt := now\<rparr>)),
      st\<lparr>projects := repo_addMember pid m now (projects st)\<rparr>)"
  by (auto simp: addMember_def isOwner_def isMember_iff missingOrInactive_def Let_def
      repo_addMember_def findById_findByIdAndUpdate split: option.splits)

section \<open>Removing a user who is not a member\<close>

text \<open>
  Claim C10.  For a stored project \<open>p\<close> and a caller who is the owner or the target
  itself, \<^verbatim>\<open>removeMember\<close> with a target that is neither the owner nor a member
  answers \<^verbatim>\<open>NOT_A_MEMBER\<close> and changes nothing.  Whoever calls it, either the
  database is unchanged, or the target was a member and the project is stored with
  the target removed from its member list; no other project changes.
\<close>

theorem removeMember_not_a_member:
  "findById pid (projects st) = Some p \<Longrightarrow>
     ((c = owner p \<or> c = m) \<and> m \<noteq> owner p \<and> m \<notin> set (members p) \<longrightarrow>
        removeMember now pid m c st = (Inl NOT_A_MEMBER, st)) \<and>
     (snd (removeMember now pid m c st) = st \<or>
        m \<in> set (members p) \<and>
        findById pid (projects (snd (removeMember now pid m c st))) =
          Some (p\<lparr>members := removeAll m (members p), updatedAt := now\<rparr>)) \<and>
     (\<forall>q. q \<noteq> pid \<longrightarrow>
        findById q (projects (snd (removeMember now pid m c st))) = findById q (projects st))"
  by (auto simp: removeMember_def isOwner_def isMember_iff Let_def repo_removeMember_def
      findById_findByIdAndUpdate findById_other_findByIdAndUpdate)

theorem removeMember_not_a_member_witness:
  "findById 10 (projects demo) = Some demoProject \<and>
   owner demoProject = 1 \<and> members demoProject = [2] \<and>
   removeMember 5 10 3 1 demo = (Inl NOT_A_MEMBER, demo) \<and>
   removeMember 5 10 3 3 demo = (Inl NOT_A_MEMBER, demo) \<and>
   findById 10 (projects (snd (removeMember 5 10 2 1 demo))) =
     Some (demoProject\<lparr>members := [], updatedAt := 5\<rparr>)"
proof -
  have o: "owner demoProject = 1 \<and> members demoProject = [2]"
    by (simp add: demoProject_def)
  have s: "snd (removeMember 5 10 2 1 demo) \<noteq> demo"
    by (simp add: removeMember_def isOwner_def isMember_def repo_removeMember_def
        findByIdAndUpdate_def findById_def demo_defs)
  show ?thesis
    using removeMember_not_a_member [OF demo_project, where now = 5 and m = 3 and c = 1]
      removeMember_not_a_member [OF demo_project, where now = 5 and m = 3 and c = 3]
      removeMember_not_a_member [OF demo_project, where now = 5 and m = 2 and c = 1]
      demo_project o s
    by (simp del: One_nat_def)
qed

section \<open>Bulk update of tasks\<close>

lemma accessToAll_iff:
  "accessToAll coll a ts \<longleftrightarrow> (\<forall>t\<in>set ts. userHasAccess coll (projectId t) a)"
  by (induction ts) auto

text \<open>
  Identifiers are unique in a collection, so when one asked identifier is missing the
  query finds fewer documents than identifiers were asked for.
\<close>

lemma found_fewer_than_asked:
  assumes d: "distinct (map ident coll)" and x: "x \<in> set ids" and miss: "x \<notin> ident ` set coll"
  shows "length (filter (\<lambda>t. ident t \<in> set ids) coll) < length ids"
proof -
  let ?found = "filter (\<lambda>t. ident t \<in> set ids) coll"
  have "distinct (map ident ?found)"
    using d by (simp add: distinct_map_filter)
  then have "length ?found = card (ident ` set ?found)"
    by (metis distinct_card length_map set_map)
  also have "ident ` set ?found \<subseteq> set ids - {x}"
    using miss by auto
  then have "card (ident ` set ?found) \<le> card (set ids - {x})"
    by (intro card_mono) auto
  also have "\<dots> < card (set ids)"
    using x by (intro psubset_card_mono) auto
  also have "\<dots> \<le> length ids"
    by (rule card_length)
  finally show ?thesis .
qed

lemma found_all_asked:
  assumes d: "distinct (map ident coll)" and i: "distinct ids" and sub: "set ids \<subseteq> ident ` set coll"
  shows "length (filter (\<lambda>t. ident t \<in> set ids) coll) = length ids"
proof -
  let ?found = "filter (\<lambda>t. ident t \<in> set ids) coll"
  have "distinct (map ident ?found)"
    using d by (simp add: distinct_map_filter)
  then have "length ?found = card (ident ` set ?found)"
    by (metis distinct_card length_map set_map)
  also have "ident ` set ?found = set ids"
    using sub by auto
  also have "card (set ids) = length ids"
    using i by (rule distinct_card)
  finally show ?thesis .
qed

text \<open>
  When the listed identifiers are distinct, every one has a task and the actor has
  access to the project of each, the bulk update goes through and writes the listed
  tasks.
\<close>

lemma bulkUpdateTasks_applies:
  assumes "distinct (map ident (tasks st))" and "distinct (taskIds b)"
    and "\<forall>i\<in>set (taskIds b). \<exists>t. findById i (tasks st) = Some t \<and>
           userHasAccess (projects st) (projectId t) a"
  shows "\<exists>n. bulkUpdateTasks now b a st =
     (Inr n, st\<lparr>tasks := updateMany (\<lambda>t. ident t \<in> set (taskIds b))
                            (applyBulkFields (updates b)) now (tasks st)\<rparr>)"
proof -
  let ?found = "filter (\<lambda>t. ident t \<in> set (taskIds b)) (tasks st)"
  have "set (taskIds b) \<subseteq> ident ` set (tasks st)"
    using assms(3) findById_SomeD by fastforce
  then have len: "length ?found = length (taskIds b)"
    using assms(1,2) by (intro found_all_asked)
  have "userHasAccess (projects st) (projectId t) a" if "t \<in> set ?found" for t
  proof -
    from that have t: "t \<in> set (tasks st)" "ident t \<in> set (taskIds b)" by auto
    then obtain t' where t': "findById (ident t) (tasks st) = Some t'"
      "userHasAccess (projects st) (projectId t') a"
      using assms(3) by blast
    then have "t' \<in> set (tasks st)" "ident t' = ident t"
      using findById_SomeD by blast+
    then have "t' = t"
      using t(1) assms(1) by (meson distinct_map inj_onD)
    with t' show ?thesis by simp
  qed
  then have "accessToAll (projects st) a ?found"
    by (simp add: accessToAll_iff)
  with len show ?thesis
    by (simp add: bulkUpdateTasks_def findAll_def Let_def repo_bulkUpdate_def)
qed

text \<open>
  Claim C5.  In a task collection with unique identifiers: if one of the listed
  identifiers has no task, \<^verbatim>\<open>bulkUpdateTasks\<close> answers \<^verbatim>\<open>TASKS_NOT_FOUND\<close> and
  changes nothing; if the actor has no access to the project of one of the listed
  tasks, it answers \<^verbatim>\<open>TASKS_NOT_FOUND\<close> or \<^verbatim>\<open>TASKS_ACCESS_DENIED\<close> and changes
  nothing; when it succeeds, every listed identifier has a task and the actor has
  access to the project of each; and whenever it fails, the code is one of the two and
  the database is unchanged.
\<close>

theorem bulkUpdateTasks_all_or_nothing:
  "distinct (map ident (tasks st)) \<Longrightarrow>
     ((\<exists>i. i \<in> set (taskIds b) \<and> findById i (tasks st) = None) \<longrightarrow>
        bulkUpdateTasks now b a st = (Inl TASKS_NOT_FOUND, st)) \<and>
     ((\<exists>t. t \<in> set (tasks st) \<and> ident t \<in> set (taskIds b) \<and>
           \<not> userHasAccess (projects st) (projectId t) a) \<longrightarrow>
        (bulkUpdateTasks now b a st = (Inl TASKS_NOT_FOUND, st) \<or>
         bulkUpdateTasks now b a st = (Inl TASKS_ACCESS_DENIED, st))) \<and>
     (\<forall>n st'. bulkUpdateTasks now b a st = (Inr n, st') \<longrightarrow>
        (\<forall>i. i \<in> set (taskIds b) \<longrightarrow>
           (\<exists>t. findById i (tasks st) = Some t \<and>
                userHasAccess (projects st) (projectId t) a))) \<and>
     (\<forall>c st'. bulkUpdateTasks now b a st = (Inl c, st') \<longrightarrow>
        st' = st \<and> (c = TASKS_NOT_FOUND \<or> c = TASKS_ACCESS_DENIED))"
proof (intro conjI impI allI)
  assume d: "distinct (map ident (tasks st))"
  let ?found = "filter (\<lambda>t. ident t \<in> set (taskIds b)) (tasks st)"
  {
    assume "\<exists>i. i \<in> set (taskIds b) \<and> findById i (tasks st) = None"
    then obtain i where "i \<in> set (taskIds b)" "i \<notin> ident ` set (tasks st)"
      by (auto simp: findById_None_iff)
    from found_fewer_than_asked [OF d this]
    show "bulkUpdateTasks now b a st = (Inl TASKS_NOT_FOUND, st)"
      by (simp add: bulkUpdateTasks_def findAll_def Let_def)
  next
    assume "\<exists>t. t \<in> set (tasks st) \<and> ident t \<in> set (taskIds b) \<and>
           \<not> userHasAccess (projects st) (projectId t) a"
    then show "bulkUpdateTasks now b a st = (Inl TASKS_NOT_FOUND, st) \<or>
         bulkUpdateTasks now b a st = (Inl TASKS_ACCESS_DENIED, st)"
      by (auto simp: bulkUpdateTasks_def findAll_def Let_def accessToAll_iff)
  next
    fix n st' i
    assume ok: "bulkUpdateTasks now b a st = (Inr n, st')" and i: "i \<in> set (taskIds b)"
    have len: "length ?found = length (taskIds b)" and acc: "accessToAll (projects st) a ?found"
      using ok by (auto simp: bulkUpdateTasks_def findAll_def Let_def split: if_splits)
    have "i \<in> ident ` set (tasks st)"
      using found_fewer_than_asked [OF d i] len by auto
    then obtain t where t: "findById i (tasks st) = Some t"
      using findById_None_iff [of i "tasks st"] by (cases "findById i (tasks st)") auto
    then have "t \<in> set (tasks st)" "ident t = i"
      using findById_SomeD by blast+
    then have "userHasAccess (projects st) (projectId t) a"
      using acc i by (auto simp: accessToAll_iff)
    with t show "\<exists>t. findById i (tasks st) = Some t \<and>
        userHasAccess (projects st) (projectId t) a"
      by blast
  next
    fix c st'
    assume "bulkUpdateTasks now b a st = (Inl c, st')"
    then show "st' = st" "c = TASKS_NOT_FOUND \<or> c = TASKS_ACCESS_DENIED"
      by (auto simp: bulkUpdateTasks_def Let_def split: if_splits prod.splits)
  }
qed

theorem bulkUpdateTasks_all_or_nothing_witness:
  "distinct (map ident (tasks demo)) \<and>
   findById 22 (tasks demo) = None \<and>
   bulkUpdateTasks 50
     \<lparr>taskIds = [20, 22],
      updates = \<lparr>bu_status = Some InProgress, bu_priority = None, bu_assignedTo = None\<rparr>\<rparr>
     2 demo = (Inl TASKS_NOT_FOUND, demo) \<and>
   \<not> userHasAccess (projects demo) (projectId demoTask) 3 \<and>
   bulkUpdateTasks 50
     \<lparr>taskIds = [20],
      updates = \<lparr>bu_status = Some InProgress, bu_priority = None, bu_assignedTo = None\<rparr>\<rparr>
     3 demo = (Inl TASKS_ACCESS_DENIED, demo)"
proof -
  let ?u = "\<lparr>bu_status = Some InProgress, bu_priority = None, bu_assignedTo = None\<rparr>"
  have d: "distinct (map ident (tasks demo))"
    by (simp add: demo_defs)
  have n: "findById 22 (tasks demo) = None"
    by (simp add: findById_def demo_defs)
  have c: "\<not> userHasAccess (projects demo) (projectId demoTask) 3"
    by (simp add: userHasAccess_def findById_def isOwner_def isMember_def demo_defs)
  have "\<exists>i. i \<in> set (taskIds \<lparr>taskIds = [20, 22], updates = ?u\<rparr>) \<and>
      findById i (tasks demo) = None"
    using n by (intro exI [of _ 22]) simp
  with bulkUpdateTasks_all_or_nothing
    [OF d, where b = "\<lparr>taskIds = [20, 22], updates = ?u\<rparr>" and now = 50 and a = 2]
  have r1: "bulkUpdateTasks 50 \<lparr>taskIds = [20, 22], updates = ?u\<rparr> 2 demo =
      (Inl TASKS_NOT_FOUND, demo)"
    by blast
  have "\<exists>t. t \<in> set (tasks demo) \<and> ident t \<in> set (taskIds \<lparr>taskIds = [20], updates = ?u\<rparr>) \<and>
      \<not> userHasAccess (projects demo) (projectId t) 3"
    using c by (intro exI [of _ demoTask]) (simp add: demo_def demoTask_def)
  with bulkUpdateTasks_all_or_nothing
    [OF d, where b = "\<lparr>taskIds = [20], updates = ?u\<rparr>" and now = 50 and a = 3]
  have "bulkUpdateTasks 50 \<lparr>taskIds = [20], updates = ?u\<rparr> 3 demo = (Inl TASKS_NOT_FOUND, demo) \<or>
      bulkUpdateTasks 50 \<lparr>taskIds = [20], updates = ?u\<rparr> 3 demo = (Inl TASKS_ACCESS_DENIED, demo)"
    by blast
  moreover have "bulkUpdateTasks 50 \<lparr>taskIds = [20], updates = ?u\<rparr> 3 demo \<noteq>
      (Inl TASKS_NOT_FOUND, demo)"
    by (simp add: bulkUpdateTasks_def findAll_def userHasAccess_def findById_def isOwner_def
        isMember_def demo_defs)
  ultimately have r2: "bulkUpdateTasks 50 \<lparr>taskIds = [20], updates = ?u\<rparr> 3 demo =
      (Inl TASKS_ACCESS_DENIED, demo)"
    by blast
  show ?thesis
    using d n c r1 r2 by blast
qed

section \<open>The assignee of a task\<close>

text \<open>
  Claim C7, as amended.  When the proposed assignee has no access to the project,
  \<^verbatim>\<open>createTask\<close> and the single-task \<^verbatim>\<open>updateTask\<close> that sets \<^verbatim>\<open>assignedTo\<close>
  fail and leave the database unchanged.  The checks run in a fixed order: first the
  acting user's own access (\<^verbatim>\<open>PROJECT_ACCESS_DENIED\<close> on creation,
  \<^verbatim>\<open>TASK_ACCESS_DENIED\<close> on update), then whether the assignee exists and is active
  (\<^verbatim>\<open>INVALID_ASSIGNED_USER\<close>), and only then the assignee's access, so the code is
  \<^verbatim>\<open>ASSIGNED_USER_NO_ACCESS\<close> exactly when the first two checks pass.
\<close>

theorem assignee_without_access:
  "\<not> userHasAccess (projects st) pid assignee \<longrightarrow>
     createTask newId now (taskData\<lparr>ct_projectId := pid, ct_assignedTo := assignee\<rparr>) actor st =
       (Inl (if \<not> userHasAccess (projects st) pid actor then PROJECT_ACCESS_DENIED
             else if missingOrInactive (users st) assignee then INVALID_ASSIGNED_USER
             else ASSIGNED_USER_NO_ACCESS), st) \<and>
     (\<forall>tid t. findById tid (tasks st) = Some t \<and> projectId t = pid \<longrightarrow>
        updateTask now tid (upd\<lparr>ut_assignedTo := Some assignee\<rparr>) actor st =
          (Inl (if \<not> userHasAccess (projects st) pid actor then TASK_ACCESS_DENIED
                else if missingOrInactive (users st) assignee then INVALID_ASSIGNED_USER
                else ASSIGNED_USER_NO_ACCESS), st))"
  by (auto simp: createTask_def updateTask_def)

theorem assignee_without_access_witness:
  "\<not> userHasAccess (projects demo) 10 3 \<and> userHasAccess (projects demo) 10 1 \<and>
   \<not> missingOrInactive (users demo) 3 \<and>
   createTask 23 5
     \<lparr>ct_title = js ''Review'', ct_description = js ''Second task'', ct_projectId = 10,
      ct_assignedTo = 3, ct_priority = Low, ct_dueDate = 900\<rparr> 1 demo =
     (Inl ASSIGNED_USER_NO_ACCESS, demo) \<and>
   updateTask 5 20
     \<lparr>ut_title = None, ut_description = None, ut_assignedTo = Some 3, ut_status = None,
      ut_priority = None, ut_dueDate = None\<rparr> 1 demo =
     (Inl ASSIGNED_USER_NO_ACCESS, demo)"
proof -
  have a: "\<not> userHasAccess (projects demo) 10 3 \<and> userHasAccess (projects demo) 10 1"
    by (simp add: userHasAccess_def findById_def isOwner_def isMember_def demo_defs)
  have u: "\<not> missingOrInactive (users demo) 3"
    by (simp add: missingOrInactive_def findById_def demo_defs)
  have t: "projectId demoTask = 10"
    by (simp add: demoTask_def)
  show ?thesis
    using assignee_without_access [where st = demo and pid = 10 and assignee = 3 and actor = 1
        and newId = 23 and now = 5
        and taskData = "\<lparr>ct_title = js ''Review'', ct_description = js ''Second task'',
          ct_projectId = 10, ct_assignedTo = 3, ct_priority = Low, ct_dueDate = 900\<rparr>"
        and upd = "\<lparr>ut_title = None, ut_description = None, ut_assignedTo = Some 3,
          ut_status = None, ut_priority = None, ut_dueDate = None\<rparr>"]
      a u t demo_task
    by (simp del: One_nat_def)
qed

text \<open>
  The claim as stated, with \<^verbatim>\<open>ASSIGNED_USER_NO_ACCESS\<close> whether or not the acting
  user's own check passes, fails when Carol, an outsider, creates a task assigned to
  herself: the answer is \<^verbatim>\<open>PROJECT_ACCESS_DENIED\<close>.
\<close>

theorem createTask_actor_check_first:
  "\<not> userHasAccess (projects demo) 10 3 \<and>
   createTask 23 5
     \<lparr>ct_title = js ''Review'', ct_description = js ''Second task'', ct_projectId = 10,
      ct_assignedTo = 3, ct_priority = Low, ct_dueDate = 900\<rparr> 3 demo =
     (Inl PROJECT_ACCESS_DENIED, demo) \<and>
   fst (createTask 23 5
     \<lparr>ct_title = js ''Review'', ct_description = js ''Second task'', ct_projectId = 10,
      ct_assignedTo = 3, ct_priority = Low, ct_dueDate = 900\<rparr> 3 demo) \<noteq>
     Inl ASSIGNED_USER_NO_ACCESS"
  by (simp add: createTask_def userHasAccess_def findById_def isOwner_def isMember_def demo_defs)

text \<open>
  \<^verbatim>\<open>bulkUpdateTasks\<close> can set \<^verbatim>\<open>assignedTo\<close> as well and makes no check of
  the assignee: Bob hands task 20 to Carol, who has no access to the project.
\<close>

lemma bulkUpdateTasks_assigns_outsider:
  "\<not> userHasAccess (projects demo) 10 3 \<and>
   bulkUpdateTasks 50
     \<lparr>taskIds = [20],
      updates = \<lparr>bu_status = None, bu_priority = None, bu_assignedTo = Some 3\<rparr>\<rparr>
     2 demo =
     (Inr 1, demo\<lparr>tasks := [demoTask\<lparr>assignedTo := 3, updatedAt := 50\<rparr>]\<rparr>)"
  by (simp add: bulkUpdateTasks_def findAll_def repo_bulkUpdate_def updateMany_def
      applyBulkFields_def userHasAccess_def findById_def isOwner_def isMember_def demo_defs)

section \<open>Registration\<close>

lemma findByEmail_None_iff:
  "findByEmail env e coll = None \<longleftrightarrow> normEmail env e \<notin> email ` set coll"
  by (force simp: findByEmail_def find_None_iff image_iff)

text \<open>
  Claim C8, as amended.  A registration whose email, trimmed and lower-cased as the
  schema stores it, is the email of a stored user answers \<^verbatim>\<open>USER_EXISTS\<close> and
  creates nothing.  A registration whose email is not stored, and whose name, email
  or password does not pass the validators of the user schema (or whose new
  identifier is taken), answers \<^verbatim>\<open>REGISTRATION_ERROR\<close> and creates nothing.  Every
  other registration appends one user whose stored password is the hash of the
  submitted password; the answer carries that user without a password field, an
  access token and a refresh token for the new user.
\<close>

theorem register_duplicate_or_created:
  "register env newId now d st =
     (if normEmail env (reg_email d) \<in> email ` set (users st)
      then (Inl USER_EXISTS, st)
      else if \<not> validUser (newUserDocument env newId now d) \<or> newId \<in> ident ` set (users st)
      then (Inl REGISTRATION_ERROR, st)
      else
        (Inr \<lparr>user = toSafeObject (newUserDocument env newId now d),
              accessToken = jwt_sign_access env
                \<lparr>userId = newId, jwt_email = normEmail env (reg_email d), jwt_role = User\<rparr>,
              refreshToken = jwt_sign_refresh env
                \<lparr>userId = newId, jwt_email = normEmail env (reg_email d), jwt_role = User\<rparr>\<rparr>,
         st\<lparr>users := users st @
               [(newUserDocument env newId now d)
                  \<lparr>password := bcrypt_hash env (reg_password d)\<rparr>]\<rparr>))"
proof (cases "normEmail env (reg_email d) \<in> email ` set (users st)")
  case True
  then have "findByEmail env (reg_email d) (users st) \<noteq> None"
    by (simp add: findByEmail_None_iff)
  with True show ?thesis
    by (auto simp: register_def)
next
  case False
  then have none: "findByEmail env (reg_email d) (users st) = None"
    by (simp add: findByEmail_None_iff)
  have clash:
    "list_ex (userClash (user_pre_save env (newUserDocument env newId now d))) (users st)
       \<longleftrightarrow> newId \<in> ident ` set (users st)"
    using False
    by (force simp: list_ex_iff userClash_def user_pre_save_def newUserDocument_def image_iff)
  show ?thesis
    using False none clash
    by (simp add: register_def repo_create_def authResponse_def tokenPayload_def
        toSafeObject_def user_pre_save_def newUserDocument_def)
qed

lemma normEmail_erin: "normEmail demoEnv (js ''Erin@X.com'') = js ''erin@x.com''"
  by (simp add: normEmail_def demoEnv_def trim_def is_space_def js_def)

lemma normEmail_lower: "normEmail demoEnv (js ''erin@x.com'') = js ''erin@x.com''"
  by (simp add: normEmail_def demoEnv_def trim_def is_space_def js_def)

lemma matchesEmail_erin: "matchesEmail (js ''erin@x.com'')"
proof -
  let ?s = "[101, 114, 105, 110, 64, 120, 46, 99, 111, 109] :: jsString"
  have s: "js ''erin@x.com'' = ?s"
    by (simp add: js_def)
  have "\<not> list_ex is_space ?s"
    by (simp add: is_space_def)
  moreover have "?s ! 4 = of_char CHR ''@'' \<and> ?s ! 6 = of_char CHR ''.'' \<and> length ?s = 10"
    by simp
  then have "list_ex (\<lambda>i. ?s ! i = of_char CHR ''@'' \<and> 0 < i \<and>
                 list_ex (\<lambda>j. ?s ! j = of_char CHR ''.'' \<and> i + 1 < j \<and> j + 1 < length ?s)
                   [0..<length ?s])
        [0..<length ?s]"
    unfolding list_ex_iff
    by (intro bexI [of _ 4] bexI [of _ 6] conjI) simp_all
  ultimately show ?thesis
    unfolding matchesEmail_def s by blast
qed

lemma demoEnv_hash: "bcrypt_hash demoEnv pw = js ''$2a$'' @ pw"
  by (simp add: demoEnv_def)

lemma demoEnv_sign:
  "jwt_sign_access demoEnv p = js ''access.'' @ jwt_email p"
  "jwt_sign_refresh demoEnv p = js ''refresh.'' @ jwt_email p"
  by (simp_all add: demoEnv_def)

theorem register_duplicate_or_created_witness:
  "normEmail demoEnv (js ''bob@x.com'') \<in> email ` set (users demo) \<and>
   register demoEnv 5 50
     \<lparr>reg_name = js ''Robert'', reg_email = js ''bob@x.com'',
      reg_password = js ''Robert12!''\<rparr> demo =
     (Inl USER_EXISTS, demo) \<and>
   register demoEnv 5 50
     \<lparr>reg_name = js ''Erin'', reg_email = js ''Erin@X.com'', reg_password = js ''short''\<rparr> demo =
     (Inl REGISTRATION_ERROR, demo) \<and>
   register demoEnv 5 50
     \<lparr>reg_name = js ''Erin'', reg_email = js ''Erin@X.com'',
      reg_password = js ''Erin1234!''\<rparr> demo =
     (Inr \<lparr>user = \<lparr>ident = 5, createdAt = 50, updatedAt = 50, su_name = js ''Erin'',
                    su_email = js ''erin@x.com'', su_role = User, su_avatar = None,
                    su_isActive = True, su_lastLogin = None\<rparr>,
           accessToken = js ''access.erin@x.com'', refreshToken = js ''refresh.erin@x.com''\<rparr>,
      demo\<lparr>users := [alice, bob, carol, dave,
              \<lparr>ident = 5, createdAt = 50, updatedAt = 50, name = js ''Erin'',
               email = js ''erin@x.com'', password = js ''$2a$Erin1234!'', role = User,
               avatar = None, isActive = True, lastLogin = None\<rparr>]\<rparr>)"
proof -
  let ?bob = "\<lparr>reg_name = js ''Robert'', reg_email = js ''bob@x.com'',
    reg_password = js ''Robert12!''\<rparr>"
  let ?short = "\<lparr>reg_name = js ''Erin'', reg_email = js ''Erin@X.com'',
    reg_password = js ''short''\<rparr>"
  let ?erin = "\<lparr>reg_name = js ''Erin'', reg_email = js ''Erin@X.com'',
    reg_password = js ''Erin1234!''\<rparr>"
  have b: "normEmail demoEnv (js ''bob@x.com'') \<in> email ` set (users demo)"
    by (simp add: normEmail_def demoEnv_def trim_def is_space_def js_def demo_defs)
  then have "normEmail demoEnv (reg_email ?bob) \<in> email ` set (users demo)"
    by simp
  with register_duplicate_or_created [where st = demo and d = ?bob and env = demoEnv
      and newId = 5 and now = 50]
  have r1: "register demoEnv 5 50 ?bob demo = (Inl USER_EXISTS, demo)"
    by simp
  have fresh: "js ''erin@x.com'' \<notin> email ` set (users demo)"
    by (simp add: js_def demo_defs)
  have invalid: "\<not> validUser (newUserDocument demoEnv 5 50 ?short)"
    by (simp add: validUser_def newUserDocument_def js_def)
  have valid: "validUser (newUserDocument demoEnv 5 50 ?erin)"
    using matchesEmail_erin
    by (simp add: validUser_def newUserDocument_def validString_def normEmail_erin)
      (simp add: trim_def is_space_def js_def)
  have newid: "5 \<notin> ident ` set (users demo)"
    by (simp add: demo_defs)
  from register_duplicate_or_created [where st = demo and d = ?short and env = demoEnv
      and newId = 5 and now = 50] fresh invalid
  have r2: "register demoEnv 5 50 ?short demo = (Inl REGISTRATION_ERROR, demo)"
    by (simp add: normEmail_erin)
  from register_duplicate_or_created [where st = demo and d = ?erin and env = demoEnv
      and newId = 5 and now = 50] fresh valid newid
  have "register demoEnv 5 50 ?erin demo =
        (Inr \<lparr>user = toSafeObject (newUserDocument demoEnv 5 50 ?erin),
              accessToken = jwt_sign_access demoEnv
                \<lparr>userId = 5, jwt_email = js ''erin@x.com'', jwt_role = User\<rparr>,
              refreshToken = jwt_sign_refresh demoEnv
                \<lparr>userId = 5, jwt_email = js ''erin@x.com'', jwt_role = User\<rparr>\<rparr>,
         demo\<lparr>users := users demo @
               [(newUserDocument demoEnv 5 50 ?erin)
                  \<lparr>password := bcrypt_hash demoEnv (reg_password ?erin)\<rparr>]\<rparr>)"
    by (simp add: normEmail_erin)
  then have r3: "register demoEnv 5 50 ?erin demo =
     (Inr \<lparr>user = \<lparr>ident = 5, createdAt = 50, updatedAt = 50, su_name = js ''Erin'',
                    su_email = js ''erin@x.com'', su_role = User, su_avatar = None,
                    su_isActive = True, su_lastLogin = None\<rparr>,
           accessToken = js ''access.erin@x.com'', refreshToken = js ''refresh.erin@x.com''\<rparr>,
      demo\<lparr>users := [alice, bob, carol, dave,
              \<lparr>ident = 5, createdAt = 50, updatedAt = 50, name = js ''Erin'',
               email = js ''erin@x.com'', password = js ''$2a$Erin1234!'', role = User,
               avatar = None, isActive = True, lastLogin = None\<rparr>]\<rparr>)"
    by (simp add: toSafeObject_def newUserDocument_def normEmail_erin demoEnv_hash
        demoEnv_sign demo_def)
      (simp add: trim_def is_space_def js_def)
  show ?thesis
    using b r1 r2 r3 by blast
qed

text \<open>
  The claim as stated, with a user created for every registration with a fresh email,
  fails for a name of two blanks, or of two no-break spaces, which the request schema
  accepts (two characters) and the user schema trims to the empty string and refuses:
  nothing is created.
\<close>

theorem register_blank_name:
  "findByEmail demoEnv (js ''erin@x.com'') (users demo) = None \<and>
   register demoEnv 5 50
     \<lparr>reg_name = js ''  '', reg_email = js ''erin@x.com'', reg_password = js ''Erin1234!''\<rparr>
     demo =
     (Inl REGISTRATION_ERROR, demo) \<and>
   register demoEnv 5 50
     \<lparr>reg_name = [0xA0, 0xA0], reg_email = js ''erin@x.com'', reg_password = js ''Erin1234!''\<rparr>
     demo =
     (Inl REGISTRATION_ERROR, demo)"
proof -
  have none: "findByEmail demoEnv (js ''erin@x.com'') (users demo) = None"
    by (simp add: findByEmail_def normEmail_lower) (simp add: js_def demo_defs)
  have blank: "trim (js ''  '') = [] \<and> trim [0xA0, 0xA0] = []"
    by (simp add: trim_def is_space_def js_def)
  show ?thesis
    using none blank
    by (simp add: register_def repo_create_def validUser_def validString_def
        newUserDocument_def)
qed

section \<open>Which requests change a user record\<close>

text \<open>The project and task services leave the user collection as it is.\<close>

lemma users_createProject: "users (snd (createProject newId now d a st)) = users st"
  by (simp add: createProject_def split: sum.splits)

lemma users_getProjectById: "users (snd (getProjectById pid u st)) = users st"
  by (simp add: getProjectById_def Let_def split: option.splits)

lemma users_updateProject: "users (snd (updateProject now pid d a st)) = users st"
  by (simp add: updateProject_def Let_def split: option.splits)

lemma users_deleteProject: "users (snd (deleteProject pid a st)) = users st"
  by (simp add: deleteProject_def split: option.splits)

lemma users_addMember: "users (snd (addMember now pid m a st)) = users st"
  by (simp add: addMember_def Let_def split: option.splits)

lemma users_removeMember: "users (snd (removeMember now pid m a st)) = users st"
  by (simp add: removeMember_def Let_def split: option.splits)

lemma users_createTask: "users (snd (createTask newId now d a st)) = users st"
  by (simp add: createTask_def split: sum.splits)

lemma users_getTaskById: "users (snd (getTaskById tid a st)) = users st"
  by (simp add: getTaskById_def split: option.splits sum.splits)

lemma users_updateTask: "users (snd (updateTask now tid d a st)) = users st"
  by (simp add: updateTask_def split: option.splits sum.splits)

lemma users_deleteTask: "users (snd (deleteTask tid a st)) = users st"
  by (simp add: deleteTask_def split: option.splits)

lemma users_bulkUpdateTasks: "users (snd (bulkUpdateTasks now b a st)) = users st"
  by (simp add: bulkUpdateTasks_def Let_def split: prod.splits)

lemma snd_answer: "snd (answer r) = snd r"
  by (simp add: answer_def split: prod.splits sum.splits)

lemma users_guarded:
  "users (snd r) = users st \<Longrightarrow> users (snd (guarded who pid st r)) = users st"
  by (simp add: guarded_def split: sum.splits)

lemma users_controller: "users (snd (controller newId now who req st)) = users st"
  by (cases req)
    (simp_all add: snd_answer users_guarded users_createProject users_getProjectById
      users_updateProject users_deleteProject users_addMember users_removeMember
      users_createTask users_getTaskById users_updateTask users_deleteTask
      users_bulkUpdateTasks)

text \<open>A registration leaves the stored users as they are and at most appends one.\<close>

lemma register_keeps_existing:
  "users (snd (register env newId now d st)) = users st \<or>
   users (snd (register env newId now d st)) =
     users st @
       [(newUserDocument env newId now d)\<lparr>password := bcrypt_hash env (reg_password d)\<rparr>]"
  by (simp add: register_def repo_create_def user_pre_save_def newUserDocument_def
      split: option.splits)

text \<open>A successful login stamps \<^verbatim>\<open>lastLogin\<close> of the user who logs in.\<close>

lemma login_stamps_lastLogin:
  "login env now d st = (Inr r, st') \<Longrightarrow>
   \<exists>u. findByEmail env (login_email d) (users st) = Some u \<and>
       st' = st\<lparr>users := updateLastLogin now (ident u) (users st)\<rparr>"
  by (auto simp: login_def split: option.splits if_splits)

text \<open>
  What \<^verbatim>\<open>authenticate\<close> answers, by the token, its verification and the stored user
  of the payload.
\<close>

lemma authenticate_accepts:
  "token = Some t \<Longrightarrow> t \<noteq> [] \<Longrightarrow> jwt_verify env t = Decoded who \<Longrightarrow>
   findById (userId who) (users st) = Some u \<Longrightarrow> isActive u \<Longrightarrow>
   authenticate env now token st =
     (Inr who, st\<lparr>users := updateLastLogin now (userId who) (users st)\<rparr>)"
  by (simp add: authenticate_def)

lemma authenticate_refuses:
  "\<not> (\<exists>t who u. token = Some t \<and> t \<noteq> [] \<and> jwt_verify env t = Decoded who \<and>
         findById (userId who) (users st) = Some u \<and> isActive u) \<Longrightarrow>
   \<exists>c. authenticate env now token st = (Inl c, st) \<and>
       c \<in> {MISSING_TOKEN, TOKEN_EXPIRED, INVALID_TOKEN, INVALID_USER}"
  by (auto simp: authenticate_def split: option.splits jwt_verdict.splits)

lemma updateLastLogin_updateFirst:
  "updateLastLogin now i coll =
     updateFirst (\<lambda>u. ident u = i) (\<lambda>u. u\<lparr>lastLogin := Some now, updatedAt := now\<rparr>) coll"
  by (simp add: updateLastLogin_def findByIdAndUpdate_def)

lemma findById_updateLastLogin:
  "findById j (updateLastLogin now i coll) =
     (if j = i then map_option (\<lambda>u. u\<lparr>lastLogin := Some now, updatedAt := now\<rparr>) (findById i coll)
      else findById j coll)"
  unfolding updateLastLogin_updateFirst by (rule findById_updateFirst) simp

text \<open>
  Claim C9, as amended.  A request to a project or task route is authenticated when
  it carries a token that verifies and whose payload names a stored, active user.
  Every authenticated request, read-only ones included and whatever the route then
  answers, leaves the user collection with \<^verbatim>\<open>lastLogin\<close> and \<^verbatim>\<open>updatedAt\<close> of that
  user set to the current time: the record of that user is the old one with these two
  fields stamped, and the record under every other identifier is as before.  Every
  request that is not authenticated is refused with \<^verbatim>\<open>MISSING_TOKEN\<close>,
  \<^verbatim>\<open>TOKEN_EXPIRED\<close>, \<^verbatim>\<open>INVALID_TOKEN\<close> or \<^verbatim>\<open>INVALID_USER\<close> and leaves the whole
  database as it was.  So \<^verbatim>\<open>lastLogin\<close> is not written by login alone.
\<close>

theorem request_stamps_lastLogin:
  "(\<forall>t who u. token = Some t \<and> t \<noteq> [] \<and> jwt_verify env t = Decoded who \<and>
       findById (userId who) (users st) = Some u \<and> isActive u \<longrightarrow>
     users (snd (route env newId now token req st)) =
       updateFirst (\<lambda>u. ident u = userId who)
         (\<lambda>u. u\<lparr>lastLogin := Some now, updatedAt := now\<rparr>) (users st) \<and>
     findById (userId who) (users (snd (route env newId now token req st))) =
       Some (u\<lparr>lastLogin := Some now, updatedAt := now\<rparr>) \<and>
     (\<forall>i. i \<noteq> userId who \<longrightarrow>
        findById i (users (snd (route env newId now token req st))) = findById i (users st))) \<and>
   (\<not> (\<exists>t who u. token = Some t \<and> t \<noteq> [] \<and> jwt_verify env t = Decoded who \<and>
          findById (userId who) (users st) = Some u \<and> isActive u) \<longrightarrow>
     (\<exists>c. route env newId now token req st = (Inl c, st) \<and>
          c \<in> {MISSING_TOKEN, TOKEN_EXPIRED, INVALID_TOKEN, INVALID_USER}))"
proof (intro conjI allI impI)
  fix t who u
  assume a: "token = Some t \<and> t \<noteq> [] \<and> jwt_verify env t = Decoded who \<and>
       findById (userId who) (users st) = Some u \<and> isActive u"
  then have auth: "authenticate env now token st =
      (Inr who, st\<lparr>users := updateLastLogin now (userId who) (users st)\<rparr>)"
    by (intro authenticate_accepts) auto
  then have r: "users (snd (route env newId now token req st)) =
      updateLastLogin now (userId who) (users st)"
    by (simp add: route_def users_controller)
  show "users (snd (route env newId now token req st)) =
       updateFirst (\<lambda>u. ident u = userId who)
         (\<lambda>u. u\<lparr>lastLogin := Some now, updatedAt := now\<rparr>) (users st)"
    unfolding r by (rule updateLastLogin_updateFirst)
  show "findById (userId who) (users (snd (route env newId now token req st))) =
       Some (u\<lparr>lastLogin := Some now, updatedAt := now\<rparr>)"
    unfolding r using a by (simp add: findById_updateLastLogin)
  show "findById i (users (snd (route env newId now token req st))) = findById i (users st)"
    if "i \<noteq> userId who" for i
    unfolding r using that by (simp add: findById_updateLastLogin)
next
  assume "\<not> (\<exists>t who u. token = Some t \<and> t \<noteq> [] \<and> jwt_verify env t = Decoded who \<and>
          findById (userId who) (users st) = Some u \<and> isActive u)"
  from authenticate_refuses [OF this, of now]
  show "\<exists>c. route env newId now token req st = (Inl c, st) \<and>
          c \<in> {MISSING_TOKEN, TOKEN_EXPIRED, INVALID_TOKEN, INVALID_USER}"
    by (auto simp: route_def)
qed

text \<open>
  The claim as stated, that an authenticated read-only request modifies no user
  record, fails when Bob fetches the project at time 50: his \<^verbatim>\<open>lastLogin\<close>, unset
  before, is 50 afterwards.
\<close>

theorem get_project_stamps_lastLogin:
  "route demoEnv 99 50 (Some (js ''access.bob@x.com'')) (GetProject 10) demo =
     (Inr (), demo\<lparr>users := [alice, bob\<lparr>lastLogin := Some 50, updatedAt := 50\<rparr>, carol, dave]\<rparr>) \<and>
   lastLogin bob = None \<and>
   users (snd (route demoEnv 99 50 (Some (js ''access.bob@x.com'')) (GetProject 10) demo)) \<noteq>
     users demo"
  by (simp add: route_def authenticate_def demoEnv_def findById_def updateLastLogin_def
      findByIdAndUpdate_def guarded_def requireProjectMember_def isOwner_def isMember_def
      answer_def getProjectById_def populate_owner_members_def toSafeObject_def
      List.map_filter_simps js_def demo_defs)

theorem request_stamps_lastLogin_witness:
  "jwt_verify demoEnv (js ''access.bob@x.com'') =
     Decoded \<lparr>userId = 2, jwt_email = js ''bob@x.com'', jwt_role = User\<rparr> \<and>
   findById 2 (users demo) = Some bob \<and> isActive bob \<and>
   users (snd (route demoEnv 99 50 (Some (js ''access.bob@x.com'')) (GetTask 20) demo)) =
     [alice, bob\<lparr>lastLogin := Some 50, updatedAt := 50\<rparr>, carol, dave] \<and>
   findById 2 (users (snd (route demoEnv 99 50 (Some (js ''access.bob@x.com'')) (GetTask 20)
     demo))) = Some (bob\<lparr>lastLogin := Some 50, updatedAt := 50\<rparr>) \<and>
   findById 1 (users (snd (route demoEnv 99 50 (Some (js ''access.bob@x.com'')) (GetTask 20)
     demo))) = Some alice \<and>
   route demoEnv 99 50 None (GetTask 20) demo = (Inl MISSING_TOKEN, demo) \<and>
   route demoEnv 99 50 (Some (js ''forged'')) (DeleteTask 20) demo = (Inl INVALID_TOKEN, demo)"
proof -
  let ?tok = "js ''access.bob@x.com''"
  let ?who = "\<lparr>userId = 2, jwt_email = js ''bob@x.com'', jwt_role = User\<rparr>"
  let ?r = "route demoEnv 99 50 (Some ?tok) (GetTask 20) demo"
  have v: "jwt_verify demoEnv ?tok = Decoded ?who"
    by (simp add: demoEnv_def)
  have ne: "?tok \<noteq> []"
    by (simp add: js_def)
  have f: "findById 2 (users demo) = Some bob \<and> isActive bob"
    by (simp add: findById_def demo_defs)
  have f1: "findById 1 (users demo) = Some alice"
    by (simp add: findById_def demo_defs)
  have "Some ?tok = Some ?tok \<and> ?tok \<noteq> [] \<and> jwt_verify demoEnv ?tok = Decoded ?who \<and>
      findById (userId ?who) (users demo) = Some bob \<and> isActive bob"
    using v ne f by simp
  with request_stamps_lastLogin [where env = demoEnv and newId = 99 and now = 50
      and token = "Some ?tok" and req = "GetTask 20" and st = demo]
  have s: "users (snd ?r) =
       updateFirst (\<lambda>u. ident u = userId ?who)
         (\<lambda>u. u\<lparr>lastLogin := Some 50, updatedAt := 50\<rparr>) (users demo) \<and>
     findById (userId ?who) (users (snd ?r)) = Some (bob\<lparr>lastLogin := Some 50, updatedAt := 50\<rparr>) \<and>
     (\<forall>i. i \<noteq> userId ?who \<longrightarrow> findById i (users (snd ?r)) = findById i (users demo))"
    by blast
  from s [THEN conjunct1]
  have s1: "users (snd ?r) = [alice, bob\<lparr>lastLogin := Some 50, updatedAt := 50\<rparr>, carol, dave]"
    by (simp add: demo_defs)
  from s [THEN conjunct2, THEN conjunct1]
  have s2: "findById 2 (users (snd ?r)) = Some (bob\<lparr>lastLogin := Some 50, updatedAt := 50\<rparr>)"
    by simp
  from s [THEN conjunct2, THEN conjunct2]
  have "findById 1 (users (snd ?r)) = findById 1 (users demo)"
    by simp
  with f1 have s3: "findById 1 (users (snd ?r)) = Some alice"
    by simp
  have "\<not> (\<exists>t who u. None = Some t \<and> t \<noteq> [] \<and> jwt_verify demoEnv t = Decoded who \<and>
          findById (userId who) (users demo) = Some u \<and> isActive u)"
    by simp
  with request_stamps_lastLogin [where env = demoEnv and newId = 99 and now = 50
      and token = None and req = "GetTask 20" and st = demo]
  obtain c where "route demoEnv 99 50 None (GetTask 20) demo = (Inl c, demo)"
    by blast
  moreover have "fst (route demoEnv 99 50 None (GetTask 20) demo) = Inl MISSING_TOKEN"
    by (simp add: route_def authenticate_def)
  ultimately have n: "route demoEnv 99 50 None (GetTask 20) demo = (Inl MISSING_TOKEN, demo)"
    by simp
  have jv: "jwt_verify demoEnv (js ''forged'') = JsonWebTokenError"
    by (simp add: demoEnv_def js_def)
  then have "\<not> (\<exists>t who u. Some (js ''forged'') = Some t \<and> t \<noteq> [] \<and>
          jwt_verify demoEnv t = Decoded who \<and>
          findById (userId who) (users demo) = Some u \<and> isActive u)"
    by simp
  with request_stamps_lastLogin [where env = demoEnv and newId = 99 and now = 50
      and token = "Some (js ''forged'')" and req = "DeleteTask 20" and st = demo]
  obtain c' where "route demoEnv 99 50 (Some (js ''forged'')) (DeleteTask 20) demo = (Inl c', demo)"
    by blast
  moreover have "fst (route demoEnv 99 50 (Some (js ''forged'')) (DeleteTask 20) demo) =
      Inl INVALID_TOKEN"
    using jv by (simp add: route_def authenticate_def js_def)
  ultimately have g: "route demoEnv 99 50 (Some (js ''forged'')) (DeleteTask 20) demo =
      (Inl INVALID_TOKEN, demo)"
    by simp
  show ?thesis
    using v f s1 s2 s3 n g by blast
qed

end
